theory Spec2Isabelle
  imports Main "HOL-Library.Word" "HOL-Library.Signed_Division"
begin

section \<open>Common data: machine integers, exceptions, output streams\<close>

text \<open>
  The C++ type \<^verbatim>\<open>int\<close> is a 32-bit two's complement integer; \<open>sint\<close> reads its value.
\<close>

type_synonym cint = "32 word"

text \<open>
  The three standard exception classes the programs throw and catch, each with its
  \<^verbatim>\<open>what()\<close> message. \<^verbatim>\<open>invalid_argument\<close> and \<^verbatim>\<open>out_of_range\<close> derive from
  \<^verbatim>\<open>logic_error\<close>, not from \<^verbatim>\<open>runtime_error\<close>, so a handler for one of the three
  classes catches exactly the values of the constructor of that name.
\<close>

datatype exn =
    Invalid_argument string
  | Out_of_range string
  | Runtime_error string

fun what :: "exn \<Rightarrow> string" where
  "what (Invalid_argument m) = m"
| "what (Out_of_range m) = m"
| "what (Runtime_error m) = m"

text \<open>
  The standard streams. Every output statement of the source appends one element, the
  text of the line it writes, without the line terminator.
\<close>

record io =
  cout :: "string list"
  cerr :: "string list"

section \<open>The number pipeline (ConsoleApplication6.cpp)\<close>

subsection \<open>Library functions the pipeline calls\<close>

text \<open>\<^verbatim>\<open>isspace\<close> and \<^verbatim>\<open>isdigit\<close> in the default "C" locale.\<close>

definition isspace :: "char \<Rightarrow> bool" where
  "isspace c = (c \<in> set [CHR '' '', CHR 0x09, CHR 0x0A, CHR 0x0B, CHR 0x0C, CHR 0x0D])"

definition isdigit :: "char \<Rightarrow> bool" where
  "isdigit c = (c \<in> set ''0123456789'')"

definition digit_val :: "char \<Rightarrow> int" where
  "digit_val c = int (of_char c) - 48"

definition dec_value :: "string \<Rightarrow> int" where
  "dec_value ds = foldl (\<lambda>a c. 10 * a + digit_val c) 0 ds"

text \<open>
  \<^verbatim>\<open>std::stoi(str)\<close> with the default base 10, as the C++ standard defines it through
  \<^verbatim>\<open>strtol\<close>: leading white space is skipped, one optional sign is read, then the longest
  run of decimal digits; what follows the digits is ignored. With no digit there is no
  conversion and \<^verbatim>\<open>invalid_argument\<close> is thrown; a value outside the range of
  \<^verbatim>\<open>int\<close> throws \<^verbatim>\<open>out_of_range\<close>. The messages of these two library exceptions
  are implementation defined and the programs never print them.
\<close>

definition stoi :: "string \<Rightarrow> exn + cint" where
  "stoi str =
     (let s1 = dropWhile isspace str;
          neg = (s1 \<noteq> [] \<and> hd s1 = CHR ''-'');
          s2 = (if s1 \<noteq> [] \<and> (hd s1 = CHR ''-'' \<or> hd s1 = CHR ''+'') then tl s1 else s1);
          ds = takeWhile isdigit s2;
          v = (if neg then - dec_value ds else dec_value ds)
      in if ds = [] then Inl (Invalid_argument ''stoi'')
         else if v < - (2 ^ 31) \<or> 2 ^ 31 - 1 < v then Inl (Out_of_range ''stoi'')
         else Inr (of_int v))"

subsection \<open>Filters\<close>

text \<open>
  The three classes implementing \<^verbatim>\<open>INumberFilter\<close>; \<^verbatim>\<open>GreaterThanFilter\<close> carries
  its field \<^verbatim>\<open>threshold_\<close>. The operator \<^verbatim>\<open>%\<close> truncates towards zero (\<open>smod\<close>),
  and \<^verbatim>\<open>>\<close> compares signed values.
\<close>

datatype INumberFilter =
    EvenNumberFilter
  | OddNumberFilter
  | GreaterThanFilter cint

fun keep :: "INumberFilter \<Rightarrow> cint \<Rightarrow> bool" where
  "keep EvenNumberFilter number = (sint number smod 2 = 0)"
| "keep OddNumberFilter number = (sint number smod 2 \<noteq> 0)"
| "keep (GreaterThanFilter threshold) number = (sint number > sint threshold)"

subsection \<open>Filter factory\<close>

type_synonym FilterCreator = "string \<Rightarrow> exn + INumberFilter"

text \<open>The class's only field, the map \<^verbatim>\<open>creators_\<close> (an identifier cannot end in an underscore here).\<close>

record FilterFactory =
  creators :: "string \<rightharpoonup> FilterCreator"

definition registerFilter :: "string \<Rightarrow> FilterCreator \<Rightarrow> FilterFactory \<Rightarrow> FilterFactory" where
  "registerFilter filterName creator f = f\<lparr>creators := (creators f)(filterName \<mapsto> creator)\<rparr>"

text \<open>The creator registered for \<^verbatim>\<open>"GT"\<close>: both handlers rethrow with a message of their own.\<close>

definition gt_creator :: FilterCreator where
  "gt_creator arg =
     (case stoi arg of
        Inr threshold \<Rightarrow> Inr (GreaterThanFilter threshold)
      | Inl (Invalid_argument _) \<Rightarrow> Inl (Invalid_argument (''Invalid argument for GT filter: '' @ arg))
      | Inl (Out_of_range _) \<Rightarrow> Inl (Out_of_range (''Argument out of range for GT filter: '' @ arg))
      | Inl e \<Rightarrow> Inl e)"

text \<open>The constructor \<^verbatim>\<open>FilterFactory()\<close>: three registrations on the empty map.\<close>

definition new_FilterFactory :: FilterFactory where
  "new_FilterFactory =
     registerFilter ''GT'' gt_creator
       (registerFilter ''ODD'' (\<lambda>_. Inr OddNumberFilter)
         (registerFilter ''EVEN'' (\<lambda>_. Inr EvenNumberFilter)
           \<lparr>creators = Map.empty\<rparr>))"

definition createFilter :: "FilterFactory \<Rightarrow> string \<Rightarrow> string \<Rightarrow> exn + INumberFilter" where
  "createFilter f filterType filterArg =
     (case creators f filterType of
        Some creator \<Rightarrow> creator filterArg
      | None \<Rightarrow> Inl (Invalid_argument (''Unknown filter type: '' @ filterType)))"

subsection \<open>Reader\<close>

text \<open>
  The file system the reader sees: \<open>files w name\<close> is the content of the file, or
  \<open>None\<close> when the file cannot be opened.
\<close>

record fsys = io +
  files :: "string \<rightharpoonup> string"

text \<open>
  \<^verbatim>\<open>getline(file, line)\<close> on the unread rest of a stream: it fails at the end of the
  input; otherwise it yields the characters before the next newline and consumes the
  newline.
\<close>

definition getline :: "string \<Rightarrow> (string \<times> string) option" where
  "getline s =
     (if s = [] then None
      else Some (takeWhile (\<lambda>c. c \<noteq> CHR 0x0A) s, drop 1 (dropWhile (\<lambda>c. c \<noteq> CHR 0x0A) s)))"

text \<open>
  \<^verbatim>\<open>ss >> number_str\<close> on the unread rest of a string stream: white space is skipped,
  then the characters up to the next white space are extracted; it fails when nothing
  but white space is left.
\<close>

definition extract_word :: "string \<Rightarrow> (string \<times> string) option" where
  "extract_word s =
     (let s' = dropWhile isspace s
      in if s' = [] then None
         else Some (takeWhile (\<lambda>c. \<not> isspace c) s', dropWhile (\<lambda>c. \<not> isspace c) s'))"

text \<open>
  The inner loop of \<^verbatim>\<open>FileReader::read\<close> over one line, with the vector
  \<^verbatim>\<open>numbers\<close> and the streams passed through. An exception that neither handler
  catches leaves the loop.
\<close>

function read_words :: "string \<Rightarrow> cint list \<Rightarrow> 'a io_scheme \<Rightarrow> (exn + cint list) \<times> 'a io_scheme" where
  "read_words ss numbers w =
     (case extract_word ss of
        None \<Rightarrow> (Inr numbers, w)
      | Some (number_str, ss') \<Rightarrow>
          (case stoi number_str of
             Inr n \<Rightarrow> read_words ss' (numbers @ [n]) w
           | Inl (Invalid_argument _) \<Rightarrow>
               read_words ss' numbers
                 (w\<lparr>cerr := cerr w @ [''Warning: Invalid number in file: '' @ number_str @ ''. Skipping.'']\<rparr>)
           | Inl (Out_of_range _) \<Rightarrow>
               read_words ss' numbers
                 (w\<lparr>cerr := cerr w @ [''Warning: Number out of range in file: '' @ number_str @ ''. Skipping.'']\<rparr>)
           | Inl e \<Rightarrow> (Inl e, w)))"
  by pat_completeness auto
termination
proof (relation "measure (\<lambda>(ss, numbers, w). length ss)")
  show "wf (measure (\<lambda>(ss, numbers, w). length ss))" by simp
next
  have shorter: "length b < length s" if "extract_word s = Some (a, b)" for s a b
  proof -
    let ?s' = "dropWhile isspace s"
    from that have ne: "?s' \<noteq> []" and b: "b = dropWhile (\<lambda>c. \<not> isspace c) ?s'"
      by (simp_all add: extract_word_def Let_def split: if_splits)
    from ne have "\<not> isspace (hd ?s')" by (rule hd_dropWhile)
    with ne have "dropWhile (\<lambda>c. \<not> isspace c) ?s' = dropWhile (\<lambda>c. \<not> isspace c) (tl ?s')"
      by (cases ?s') auto
    then have "b = dropWhile (\<lambda>c. \<not> isspace c) (tl ?s')"
      using b by simp
    then have "length b \<le> length (tl ?s')"
      using length_dropWhile_le [of "\<lambda>c. \<not> isspace c" "tl ?s'"] by simp
    also have "\<dots> < length ?s'" using ne by (cases ?s') simp_all
    also have "\<dots> \<le> length s" by (rule length_dropWhile_le)
    finally show ?thesis .
  qed
  fix ss :: string and numbers :: "cint list" and w :: "'a io_scheme" and x2 x y
  assume "extract_word ss = Some x2" "(x, y) = x2"
  then have "extract_word ss = Some (x, y)" by simp
  then have "length y < length ss" by (rule shorter)
  then show "((y, numbers @ [n], w), ss, numbers, w) \<in> measure (\<lambda>(ss, numbers, w). length ss)"
    for n by simp
  then show "((y, numbers, w'), ss, numbers, w) \<in> measure (\<lambda>(ss, numbers, w). length ss)"
    for w' :: "'a io_scheme" by simp
  then show "((y, numbers, w'), ss, numbers, w) \<in> measure (\<lambda>(ss, numbers, w). length ss)"
    for w' :: "'a io_scheme" by simp
qed

declare read_words.simps [simp del]

text \<open>The outer loop of \<^verbatim>\<open>FileReader::read\<close> over the lines of the opened file.\<close>

function read_lines :: "string \<Rightarrow> cint list \<Rightarrow> 'a io_scheme \<Rightarrow> (exn + cint list) \<times> 'a io_scheme" where
  "read_lines file numbers w =
     (case getline file of
        None \<Rightarrow> (Inr numbers, w)
      | Some (line, file') \<Rightarrow>
          (case read_words line numbers w of
             (Inl e, w') \<Rightarrow> (Inl e, w')
           | (Inr numbers', w') \<Rightarrow> read_lines file' numbers' w'))"
  by pat_completeness auto
termination
proof (relation "measure (\<lambda>(file, numbers, w). length file)")
  show "wf (measure (\<lambda>(file, numbers, w). length file))" by simp
next
  fix s :: string and numbers :: "cint list" and w :: "'a io_scheme"
    and x2 x y and ya :: "'a io_scheme" and xc :: "cint list"
  assume "getline s = Some x2" "(x, y) = x2"
  then have ne: "s \<noteq> []" and y: "y = drop 1 (dropWhile (\<lambda>c. c \<noteq> CHR 0x0A) s)"
    by (auto simp: getline_def split: if_splits)
  have "length (dropWhile (\<lambda>c. c \<noteq> CHR 0x0A) s) \<le> length s"
    by (rule length_dropWhile_le)
  with ne y have "length y < length s"
    by (cases s) auto
  then show "((y, xc, ya), s, numbers, w) \<in> measure (\<lambda>(file, numbers, w). length file)"
    by simp
qed

declare read_lines.simps [simp del]

definition read :: "string \<Rightarrow> 'a fsys_scheme \<Rightarrow> (exn + cint list) \<times> 'a fsys_scheme" where
  "read filename w =
     (case files w filename of
        None \<Rightarrow> (Inl (Runtime_error (''Could not open file: '' @ filename)), w)
      | Some content \<Rightarrow> read_lines content [] w)"

subsection \<open>Observers\<close>

text \<open>
  An implementation of the interface \<^verbatim>\<open>INumberObserver\<close> is its two methods, each
  acting on the program state \<open>'w\<close> (the streams and the fields of the observer
  objects).
\<close>

record 'w INumberObserver =
  on_number :: "cint \<Rightarrow> 'w \<Rightarrow> 'w"
  on_finished :: "'w \<Rightarrow> 'w"

text \<open>\<^verbatim>\<open>operator<<\<close> for an \<^verbatim>\<open>int\<close>: the decimal digits, after a minus sign if negative.\<close>

function show_nat :: "nat \<Rightarrow> string" where
  "show_nat n =
     (if n < 10 then [char_of (48 + n)]
      else show_nat (n div 10) @ [char_of (48 + n mod 10)])"
  by pat_completeness auto
termination
  by (relation "measure (\<lambda>n. n)") auto

declare show_nat.simps [simp del]

definition show_int :: "int \<Rightarrow> string" where
  "show_int i = (if i < 0 then CHR ''-'' # show_nat (nat (- i)) else show_nat (nat i))"

text \<open>
  The state of the pipeline program: the streams, the file system, and the field
  \<^verbatim>\<open>count_\<close> of the one \<^verbatim>\<open>CountObserver\<close> object \<^verbatim>\<open>main\<close> creates.
\<close>

record pipeline_state = fsys +
  count :: cint

definition PrintObserver :: "'a io_scheme INumberObserver" where
  "PrintObserver =
     \<lparr>on_number = (\<lambda>number w. w\<lparr>cout := cout w @ [''Read and filtered number: '' @ show_int (sint number)]\<rparr>),
      on_finished = (\<lambda>w. w\<lparr>cout := cout w @ [''Number processing finished.'']\<rparr>)\<rparr>"

definition CountObserver :: "'a pipeline_state_scheme INumberObserver" where
  "CountObserver =
     \<lparr>on_number = (\<lambda>number w. w\<lparr>count := count w + 1\<rparr>),
      on_finished = (\<lambda>w. w\<lparr>cout := cout w @ [''Total number of filtered numbers: '' @ show_int (sint (count w))]\<rparr>)\<rparr>"

subsection \<open>Pipeline driver\<close>

text \<open>
  The fields \<^verbatim>\<open>reader_\<close>, \<^verbatim>\<open>filter_\<close> and \<^verbatim>\<open>observers_\<close> of \<^verbatim>\<open>NumberProcessor\<close>.
  The reader is the method \<^verbatim>\<open>read\<close> of the \<^verbatim>\<open>INumberReader\<close> it refers to.
\<close>

record 'w NumberProcessor =
  p_reader :: "string \<Rightarrow> 'w \<Rightarrow> (exn + cint list) \<times> 'w"
  p_filter :: INumberFilter
  p_observers :: "'w INumberObserver list"

definition notifyObservers :: "'w NumberProcessor \<Rightarrow> cint \<Rightarrow> 'w \<Rightarrow> 'w" where
  "notifyObservers p number w = fold (\<lambda>observer. on_number observer number) (p_observers p) w"

definition notifyFinished :: "'w NumberProcessor \<Rightarrow> 'w \<Rightarrow> 'w" where
  "notifyFinished p w = fold on_finished (p_observers p) w"

text \<open>The loop \<^verbatim>\<open>for (int number : numbers)\<close> of \<^verbatim>\<open>run\<close>.\<close>

fun process_numbers :: "'w NumberProcessor \<Rightarrow> cint list \<Rightarrow> 'w \<Rightarrow> 'w" where
  "process_numbers p [] w = w"
| "process_numbers p (number # numbers) w =
     process_numbers p numbers
       (if keep (p_filter p) number then notifyObservers p number w else w)"

text \<open>
  \<^verbatim>\<open>NumberProcessor::run\<close>. Its handler catches \<^verbatim>\<open>runtime_error\<close> only; any other
  exception leaves \<^verbatim>\<open>run\<close> (\<open>Inl\<close>).
\<close>

definition run :: "'a io_scheme NumberProcessor \<Rightarrow> string \<Rightarrow> 'a io_scheme \<Rightarrow> (exn + unit) \<times> 'a io_scheme" where
  "run p filename w =
     (case p_reader p filename w of
        (Inr numbers, w') \<Rightarrow> (Inr (), notifyFinished p (process_numbers p numbers w'))
      | (Inl (Runtime_error m), w') \<Rightarrow>
          (Inr (), w'\<lparr>cerr := cerr w' @ [''Error during processing: '' @ m]\<rparr>)
      | (Inl e, w') \<Rightarrow> (Inl e, w'))"

subsection \<open>The program\<close>

definition starts_with :: "string \<Rightarrow> string \<Rightarrow> bool" where
  "starts_with s p = (take (length p) s = p)"

text \<open>
  \<^verbatim>\<open>main\<close>, called with \<^verbatim>\<open>argv[0]\<close> (\<open>prog\<close>) and the arguments after it, so that
  \<^verbatim>\<open>argc\<close> is \<open>1 + length args\<close>. The result is the exit code, or \<open>Inl e\<close> when the
  exception \<open>e\<close> leaves \<^verbatim>\<open>main\<close> uncaught.
\<close>

definition main :: "string \<Rightarrow> string list \<Rightarrow> pipeline_state \<Rightarrow> (exn + int) \<times> pipeline_state" where
  "main prog args w =
     (if 1 + length args < 3 then
        (Inr 1, w\<lparr>cerr := cerr w @ [''Usage: '' @ prog @ '' <filter> <file>'',
                                      ''Available filters: EVEN, ODD, GT<n>'']\<rparr>)
      else
        let filter_arg = args ! 0;
            filename = args ! 1;
            filter_type = (if starts_with filter_arg ''GT'' then ''GT'' else filter_arg);
            filter_value = (if starts_with filter_arg ''GT'' then drop 2 filter_arg else []);
            factory = new_FilterFactory
        in case createFilter factory filter_type filter_value of
             Inl (Invalid_argument m) \<Rightarrow> (Inr 1, w\<lparr>cerr := cerr w @ [''Error: '' @ m]\<rparr>)
           | Inl (Out_of_range m) \<Rightarrow> (Inr 1, w\<lparr>cerr := cerr w @ [''Error: '' @ m]\<rparr>)
           | Inl e \<Rightarrow> (Inl e, w)
           | Inr flt \<Rightarrow>
               (let processor = \<lparr>p_reader = read, p_filter = flt,
                                 p_observers = [PrintObserver, CountObserver]\<rparr>
                in (case run processor filename (w\<lparr>count := 0\<rparr>) of
                      (Inl e, w') \<Rightarrow> (Inl e, w')
                    | (Inr _, w') \<Rightarrow> (Inr 0, w'))))"

text \<open>
  The filter \<^verbatim>\<open>main\<close> asks the factory for: an argument that starts with GT is split
  into the type GT and the rest as the value, any other argument is the type, with the
  empty value.
\<close>

definition main_filter :: "string \<Rightarrow> exn + INumberFilter" where
  "main_filter filter_arg =
     createFilter new_FilterFactory
       (if starts_with filter_arg ''GT'' then ''GT'' else filter_arg)
       (if starts_with filter_arg ''GT'' then drop 2 filter_arg else [])"

subsection \<open>Vocabulary of the properties\<close>

text \<open>
  The tokens of a text as the specification describes them: the maximal runs of
  characters that are not white space, from left to right and from top to bottom.
  \<open>spec_tokens_from cur s\<close> scans \<open>s\<close> with the token begun so far in \<open>cur\<close>.
\<close>

fun spec_tokens_from :: "string \<Rightarrow> string \<Rightarrow> string list" where
  "spec_tokens_from cur [] = (if cur = [] then [] else [cur])"
| "spec_tokens_from cur (c # cs) =
     (if isspace c then (if cur = [] then [] else [cur]) @ spec_tokens_from [] cs
      else spec_tokens_from (cur @ [c]) cs)"

definition spec_tokens :: "string \<Rightarrow> string list" where
  "spec_tokens s = spec_tokens_from [] s"

text \<open>The least and the greatest value of an \<^verbatim>\<open>int\<close>.\<close>

definition INT_MIN :: int where
  "INT_MIN = - 2147483648"

definition INT_MAX :: int where
  "INT_MAX = 2147483647"

definition in_int_range :: "int \<Rightarrow> bool" where
  "in_int_range v = (INT_MIN \<le> v \<and> v \<le> INT_MAX)"

text \<open>
  An integer written in decimal: an optional sign followed by one or more decimal digits
  and nothing else. \<open>sign_part\<close> is the sign, if there is one, \<open>digits_part\<close> what
  follows it. The value is read from the last digit, the units, backwards.
\<close>

definition sign_part :: "string \<Rightarrow> string" where
  "sign_part t = (if t \<noteq> [] \<and> (hd t = CHR ''+'' \<or> hd t = CHR ''-'') then [hd t] else [])"

definition digits_part :: "string \<Rightarrow> string" where
  "digits_part t = drop (length (sign_part t)) t"

fun units_first :: "string \<Rightarrow> int" where
  "units_first [] = 0"
| "units_first (c # cs) = digit_val c + 10 * units_first cs"

definition is_numeral :: "string \<Rightarrow> bool" where
  "is_numeral t = (digits_part t \<noteq> [] \<and> list_all isdigit (digits_part t))"

definition numeral_int :: "string \<Rightarrow> int" where
  "numeral_int t =
     (if sign_part t = ''-'' then - units_first (rev (digits_part t))
      else units_first (rev (digits_part t)))"

text \<open>
  The specification's words for a token or an argument that parses as an integer within
  range: the whole text is an integer written in decimal, and its value is an
  \<^verbatim>\<open>int\<close>.
\<close>

definition integer_text :: "string \<Rightarrow> bool" where
  "integer_text t = (is_numeral t \<and> in_int_range (numeral_int t))"

text \<open>
  The part of a text that counts for the program: after white space at the start, the
  sign and the digits up to the first character that is not a digit. Whatever follows is
  not looked at.
\<close>

definition leading_numeral :: "string \<Rightarrow> string" where
  "leading_numeral s =
     (let s' = dropWhile isspace s
      in sign_part s' @ takeWhile isdigit (digits_part s'))"

definition begins_with_integer :: "string \<Rightarrow> bool" where
  "begins_with_integer s = integer_text (leading_numeral s)"

text \<open>
  The values of the tokens that begin with an integer, in order, and one warning for each
  of the other tokens: for want of a digit, or for a value out of range.
\<close>

definition leading_values :: "string list \<Rightarrow> cint list" where
  "leading_values ts =
     map (\<lambda>t. of_int (numeral_int (leading_numeral t))) (filter begins_with_integer ts)"

definition skip_warning :: "string \<Rightarrow> string" where
  "skip_warning t =
     (if is_numeral (leading_numeral t)
      then ''Warning: Number out of range in file: '' @ t @ ''. Skipping.''
      else ''Warning: Invalid number in file: '' @ t @ ''. Skipping.'')"

definition skip_warnings :: "string list \<Rightarrow> string list" where
  "skip_warnings ts = map skip_warning (filter (\<lambda>t. \<not> begins_with_integer t) ts)"

text \<open>
  An observer that records every call made to it, under its name, in the field \<open>calls\<close>
  of the state: an implementation of \<^verbatim>\<open>INumberObserver\<close> with which the order of the
  notifications can be read off.
\<close>

datatype call = On_number string cint | On_finished string

record probe_state = fsys +
  calls :: "call list"

definition probe :: "string \<Rightarrow> 'a probe_state_scheme INumberObserver" where
  "probe name =
     \<lparr>on_number = (\<lambda>number w. w\<lparr>calls := calls w @ [On_number name number]\<rparr>),
      on_finished = (\<lambda>w. w\<lparr>calls := calls w @ [On_finished name]\<rparr>)\<rparr>"

text \<open>
  The filter specifications of the command line as the specification gives them: EVEN,
  ODD, or GT followed by an integer within range.
\<close>

definition valid_filter_spec :: "string \<Rightarrow> bool" where
  "valid_filter_spec a =
     (a = ''EVEN'' \<or> a = ''ODD'' \<or> (starts_with a ''GT'' \<and> integer_text (drop 2 a)))"

text \<open>
  The filter specifications the program takes: EVEN, ODD, or GT followed by a text that
  begins with an integer within range.
\<close>

definition taken_filter_spec :: "string \<Rightarrow> bool" where
  "taken_filter_spec a =
     (if starts_with a ''GT'' then begins_with_integer (drop 2 a)
      else a = ''EVEN'' \<or> a = ''ODD'')"

text \<open>
  A file whose three tokens begin with digits and go on with other characters, and a
  file with the two values at the ends of the range and their two neighbours outside it.
\<close>

definition trailing_world :: pipeline_state where
  "trailing_world =
     \<lparr>cout = [], cerr = [], files = [''in.txt'' \<mapsto> ''12abc 1.5 0x1A''], count = 0\<rparr>"

definition boundary_world :: pipeline_state where
  "boundary_world =
     \<lparr>cout = [], cerr = [],
      files = [''in.txt'' \<mapsto> ''-2147483649 -2147483648 2147483647 2147483648''],
      count = 0\<rparr>"

text \<open>
  The example file of the specification, two lines with the tokens 2, 3, x, 4 and 5, -2,
  in a state for the program and in a state for two recording observers.
\<close>

definition example_content :: string where
  "example_content = ''2 3 x 4'' @ [CHR 0x0A] @ ''5 -2'' @ [CHR 0x0A]"

definition example_world :: pipeline_state where
  "example_world =
     \<lparr>cout = [], cerr = [], files = [''numbers.txt'' \<mapsto> example_content], count = 0\<rparr>"

definition example_probe_world :: probe_state where
  "example_probe_world =
     \<lparr>cout = [], cerr = [], files = [''numbers.txt'' \<mapsto> example_content], calls = []\<rparr>"

section \<open>The switchable logger (main.cpp)\<close>

subsection \<open>Sinks\<close>

text \<open>
  The objects of the three classes implementing \<^verbatim>\<open>LogSink\<close>. A \<^verbatim>\<open>FileSink\<close> carries
  its field \<^verbatim>\<open>file_open_\<close> and whether its stream \<^verbatim>\<open>file_\<close> is in a failed state.
\<close>

datatype LogSink =
    ConsoleSink
  | FileSink (file_open: bool) (file_failed: bool)
  | NullSink

text \<open>
  The state around the logger: the streams, the sink objects alive on the heap by
  address, the next address \<^verbatim>\<open>make_unique\<close> hands out, the lines of \<^verbatim>\<open>app.log\<close>, and
  whether the environment lets \<^verbatim>\<open>app.log\<close> be opened for appending and written to.
\<close>

record logger_world = io +
  heap :: "nat \<rightharpoonup> LogSink"
  next_addr :: nat
  app_log :: "string list"
  app_log_openable :: bool
  app_log_writable :: bool

definition make_unique :: "LogSink \<Rightarrow> logger_world \<Rightarrow> nat \<times> logger_world" where
  "make_unique obj w =
     (next_addr w, w\<lparr>heap := (heap w)(next_addr w \<mapsto> obj), next_addr := next_addr w + 1\<rparr>)"

text \<open>The constructor \<^verbatim>\<open>FileSink()\<close> opens \<^verbatim>\<open>app.log\<close> and reports a failure to do so.\<close>

definition make_unique_FileSink :: "logger_world \<Rightarrow> nat \<times> logger_world" where
  "make_unique_FileSink w =
     (if app_log_openable w then make_unique (FileSink True False) w
      else make_unique (FileSink False True)
             (w\<lparr>cerr := cerr w @ [''Error opening file app.log for writing.'']\<rparr>))"

text \<open>
  The virtual call \<^verbatim>\<open>write\<close> on the sink object at address \<open>p\<close>, dispatched on the
  class of the object. Calling it on an address that holds no
  live object is undefined behaviour (\<open>None\<close>).
\<close>

definition sink_write :: "nat \<Rightarrow> string \<Rightarrow> logger_world \<Rightarrow> logger_world option" where
  "sink_write p msg w =
     (case heap w p of
        None \<Rightarrow> None
      | Some ConsoleSink \<Rightarrow> Some (w\<lparr>cout := cout w @ [msg]\<rparr>)
      | Some (FileSink opened failed) \<Rightarrow>
          Some (if opened then
                  (if \<not> failed \<and> app_log_writable w then w\<lparr>app_log := app_log w @ [msg]\<rparr>
                   else w\<lparr>heap := (heap w)(p \<mapsto> FileSink opened True),
                          cerr := cerr w @ [''Error writing to file app.log.'']\<rparr>)
                else w\<lparr>cerr := cerr w @ [''Error: File app.log is not open.'']\<rparr>)
      | Some NullSink \<Rightarrow> Some w)"

subsection \<open>Logger\<close>

text \<open>
  \<^verbatim>\<open>enum class SinkType\<close> has the underlying type \<^verbatim>\<open>int\<close>, and every value of that type
  is a value of the enumeration; the three enumerators are 0, 1 and 2.
\<close>

type_synonym SinkType = cint

definition CONSOLE :: SinkType where "CONSOLE = 0"
definition FILE :: SinkType where "FILE = 1"
definition NONE :: SinkType where "NONE = 2"

text \<open>
  The fields \<^verbatim>\<open>sink_\<close> (a \<^verbatim>\<open>unique_ptr\<close>: the address of the owned object, or
  \<open>None\<close> for the null pointer) and \<^verbatim>\<open>current_sink_type_\<close>.
\<close>

record Logger =
  sink :: "nat option"
  current_sink_type :: SinkType

text \<open>The private constructor \<^verbatim>\<open>Logger()\<close> with the default member initialiser.\<close>

definition new_Logger :: "logger_world \<Rightarrow> Logger \<times> logger_world" where
  "new_Logger w =
     (let (p, w1) = make_unique ConsoleSink w
      in (\<lparr>sink = Some p, current_sink_type = CONSOLE\<rparr>, w1))"

text \<open>
  The move assignment \<^verbatim>\<open>sink_ = ...\<close> of a \<^verbatim>\<open>unique_ptr\<close>: the new address is stored
  and the object owned before, if any, is destroyed.
\<close>

definition assign_sink :: "nat \<Rightarrow> Logger \<times> logger_world \<Rightarrow> Logger \<times> logger_world" where
  "assign_sink p st =
     (case st of (lg, w) \<Rightarrow>
        (lg\<lparr>sink := Some p\<rparr>,
         (case sink lg of None \<Rightarrow> w | Some old \<Rightarrow> w\<lparr>heap := (heap w)(old := None)\<rparr>)))"

definition set_sink :: "SinkType \<Rightarrow> Logger \<times> logger_world \<Rightarrow> Logger \<times> logger_world" where
  "set_sink type st =
     (case st of (lg, w) \<Rightarrow>
        if type = CONSOLE then
          (let (p, w1) = make_unique ConsoleSink w;
               (lg1, w2) = assign_sink p (lg, w1)
           in (lg1\<lparr>current_sink_type := CONSOLE\<rparr>,
               w2\<lparr>cout := cout w2 @ [''Logging redirected to console.'']\<rparr>))
        else if type = FILE then
          (let (p, w1) = make_unique_FileSink w;
               (lg1, w2) = assign_sink p (lg, w1)
           in (lg1\<lparr>current_sink_type := FILE\<rparr>,
               w2\<lparr>cout := cout w2 @ [''Logging redirected to file app.log.'']\<rparr>))
        else if type = NONE then
          (let (p, w1) = make_unique NullSink w;
               (lg1, w2) = assign_sink p (lg, w1)
           in (lg1\<lparr>current_sink_type := NONE\<rparr>,
               w2\<lparr>cout := cout w2 @ [''Logging disabled.'']\<rparr>))
        else (lg, w\<lparr>cerr := cerr w @ [''Unknown sink type. Previous sink remains.'']\<rparr>))"

record source_location =
  file_name :: string
  function_name :: string
  line :: nat

definition formatLogMessage :: "string \<Rightarrow> source_location \<Rightarrow> string" where
  "formatLogMessage msg location =
     ''['' @ file_name location @ '':'' @ function_name location @ '':'' @
     show_nat (line location) @ ''] '' @ msg"

definition log :: "string \<Rightarrow> source_location \<Rightarrow> Logger \<times> logger_world \<Rightarrow> (Logger \<times> logger_world) option" where
  "log msg location st =
     (case st of (lg, w) \<Rightarrow>
        (case sink lg of
           Some p \<Rightarrow> map_option (Pair lg) (sink_write p (formatLogMessage msg location) w)
         | None \<Rightarrow> Some (lg, w\<lparr>cerr := cerr w @ [''Error: Sink not set.'']\<rparr>)))"

definition get_current_sink_type :: "Logger \<Rightarrow> SinkType" where
  "get_current_sink_type lg = current_sink_type lg"

text \<open>
  What can happen to a constructed logger: a \<^verbatim>\<open>set_sink\<close> call, a \<^verbatim>\<open>log\<close> call, or the
  environment changing \<^verbatim>\<open>app.log\<close> or the access to it. A sequence of such events stops
  with \<open>None\<close> at a call whose behaviour is undefined.
\<close>

datatype logger_call =
    Set_sink SinkType
  | Log string source_location
  | Environment "string list" bool bool

fun call_logger :: "logger_call \<Rightarrow> Logger \<times> logger_world \<Rightarrow> (Logger \<times> logger_world) option" where
  "call_logger (Set_sink type) st = Some (set_sink type st)"
| "call_logger (Log msg location) st = log msg location st"
| "call_logger (Environment content openable writable) st =
     (case st of (lg, w) \<Rightarrow>
        Some (lg, w\<lparr>app_log := content, app_log_openable := openable,
                     app_log_writable := writable\<rparr>))"

fun call_sequence :: "logger_call list \<Rightarrow> Logger \<times> logger_world \<Rightarrow> (Logger \<times> logger_world) option" where
  "call_sequence [] st = Some st"
| "call_sequence (c # cs) st =
     (case call_logger c st of None \<Rightarrow> None | Some st' \<Rightarrow> call_sequence cs st')"

text \<open>
  The calls \<^verbatim>\<open>main\<close> of main.cpp makes on the logger when it is started without an
  argument, each \<^verbatim>\<open>log\<close> call with the location of its line.
\<close>

definition main_calls :: "logger_call list" where
  "main_calls =
     [Set_sink CONSOLE,
      Log ''First test message.''
        \<lparr>file_name = ''main.cpp'', function_name = ''main'', line = 136\<rparr>,
      Log ''Second test message.''
        \<lparr>file_name = ''main.cpp'', function_name = ''main'', line = 137\<rparr>,
      Set_sink FILE,
      Log ''Message to file.''
        \<lparr>file_name = ''main.cpp'', function_name = ''main'', line = 139\<rparr>,
      Set_sink NONE,
      Log ''This message should go nowhere.''
        \<lparr>file_name = ''main.cpp'', function_name = ''main'', line = 141\<rparr>,
      Set_sink CONSOLE,
      Log ''Back to console output.''
        \<lparr>file_name = ''main.cpp'', function_name = ''main'', line = 143\<rparr>]"

text \<open>What can be seen of a state: the logger's two fields, the streams and \<^verbatim>\<open>app.log\<close>.\<close>

definition observe :: "Logger \<times> logger_world \<Rightarrow>
    nat option \<times> SinkType \<times> string list \<times> string list \<times> string list" where
  "observe st =
     (case st of (lg, w) \<Rightarrow> (sink lg, current_sink_type lg, cout w, cerr w, app_log w))"

text \<open>The enumerator that names the class of a sink object.\<close>

fun sink_kind :: "LogSink \<Rightarrow> SinkType" where
  "sink_kind ConsoleSink = CONSOLE"
| "sink_kind (FileSink opened failed) = FILE"
| "sink_kind NullSink = NONE"

text \<open>
  The invariant of the logger: \<^verbatim>\<open>sink_\<close> is not null, the object it points to is the
  only sink object alive, its class is the one \<^verbatim>\<open>current_sink_type_\<close> names, and its
  address has been handed out.
\<close>

definition sink_inv :: "Logger \<times> logger_world \<Rightarrow> bool" where
  "sink_inv st =
     (case st of (lg, w) \<Rightarrow>
        (case sink lg of
           None \<Rightarrow> False
         | Some p \<Rightarrow>
             dom (heap w) = {p} \<and> p < next_addr w \<and>
             map_option sink_kind (heap w p) = Some (current_sink_type lg)))"

text \<open>A world with no sink object, in which \<^verbatim>\<open>app.log\<close> can be opened and written.\<close>

definition example_logger_world :: logger_world where
  "example_logger_world =
     \<lparr>cout = [], cerr = [], heap = Map.empty, next_addr = 0, app_log = [],
      app_log_openable = True, app_log_writable = True\<rparr>"

section \<open>Properties of the number pipeline\<close>

subsection \<open>Integer parsing\<close>

lemma stoi_cases:
  "(\<exists>n. stoi s = Inr n) \<or> stoi s = Inl (Invalid_argument ''stoi'')
     \<or> stoi s = Inl (Out_of_range ''stoi'')"
  by (simp add: stoi_def Let_def)

lemma stoi_not_runtime_error: "stoi s \<noteq> Inl (Runtime_error m)"
  using stoi_cases [of s] by auto

lemma stoi_abc: "stoi ''abc'' = Inl (Invalid_argument ''stoi'')"
  by (simp add: stoi_def isspace_def isdigit_def)

text \<open>Characters after the digits are ignored, as \<^verbatim>\<open>strtol\<close> stops at the first of them.\<close>

lemma stoi_trailing_characters: "stoi ''12abc'' = Inr 12"
  by (simp add: stoi_def isspace_def isdigit_def dec_value_def digit_val_def)

lemma stoi_empty: "stoi [] = Inl (Invalid_argument ''stoi'')"
  by (simp add: stoi_def)

lemma stoi_big: "stoi ''99999999999'' = Inl (Out_of_range ''stoi'')"
  by (simp add: stoi_def isspace_def isdigit_def dec_value_def digit_val_def)

lemma stoi_5: "stoi ''5'' = Inr 5"
  by (simp add: stoi_def isspace_def isdigit_def dec_value_def digit_val_def)

lemma dec_value_snoc: "dec_value (ds @ [c]) = 10 * dec_value ds + digit_val c"
  by (simp add: dec_value_def)

lemma dec_value_units_first: "dec_value ds = units_first (rev ds)"
  by (induction ds rule: rev_induct) (simp_all add: dec_value_snoc, simp add: dec_value_def)

lemma isdigit_not_sign: "isdigit c \<Longrightarrow> c \<noteq> CHR ''+'' \<and> c \<noteq> CHR ''-''"
  by (auto simp: isdigit_def)

lemma isdigit_not_space: "isdigit c \<Longrightarrow> \<not> isspace c"
  by (auto simp: isdigit_def isspace_def)

lemma sign_not_space: "\<not> isspace CHR ''+''" "\<not> isspace CHR ''-''"
  by (simp_all add: isspace_def)

lemma sign_part_cases:
  "sign_part t = [] \<or> sign_part t = ''+'' \<or> sign_part t = ''-''"
  by (auto simp: sign_part_def)

lemma sign_digits_append: "sign_part t @ digits_part t = t"
  by (cases t) (auto simp: sign_part_def digits_part_def)

lemma parts_of_sign_and_digits:
  assumes "list_all isdigit ds"
  shows "sign_part (sign_part t @ ds) = sign_part t"
    and "digits_part (sign_part t @ ds) = ds"
proof -
  have no_sign: "sign_part ds = []"
    using assms by (cases ds) (auto simp: sign_part_def dest: isdigit_not_sign)
  show "sign_part (sign_part t @ ds) = sign_part t"
    using sign_part_cases [of t] no_sign by (auto simp: sign_part_def)
  then show "digits_part (sign_part t @ ds) = ds"
    by (simp add: digits_part_def)
qed

lemma takeWhile_isdigit_all: "list_all isdigit (takeWhile isdigit s)"
  by (simp add: list_all_iff) (auto dest: set_takeWhileD)

lemma is_numeral_leading:
  "is_numeral (leading_numeral s) \<longleftrightarrow>
     takeWhile isdigit (digits_part (dropWhile isspace s)) \<noteq> []"
  by (simp add: is_numeral_def leading_numeral_def Let_def
        parts_of_sign_and_digits [OF takeWhile_isdigit_all] takeWhile_isdigit_all)

lemma numeral_int_leading:
  "numeral_int (leading_numeral s) =
     (if sign_part (dropWhile isspace s) = ''-''
      then - dec_value (takeWhile isdigit (digits_part (dropWhile isspace s)))
      else dec_value (takeWhile isdigit (digits_part (dropWhile isspace s))))"
proof -
  let ?s1 = "dropWhile isspace s"
  let ?ds = "takeWhile isdigit (digits_part ?s1)"
  have l: "leading_numeral s = sign_part ?s1 @ ?ds"
    by (simp add: leading_numeral_def Let_def)
  have sp: "sign_part (leading_numeral s) = sign_part ?s1"
    and dp: "digits_part (leading_numeral s) = ?ds"
    unfolding l by (rule parts_of_sign_and_digits [OF takeWhile_isdigit_all])+
  show ?thesis
    unfolding numeral_int_def sp dp dec_value_units_first ..
qed

text \<open>
  \<^verbatim>\<open>stoi\<close> in the words of the properties: it fails with \<^verbatim>\<open>invalid_argument\<close> when
  the text does not begin with an integer, with \<^verbatim>\<open>out_of_range\<close> when the integer it
  begins with is not an \<^verbatim>\<open>int\<close>, and returns that integer otherwise.
\<close>

lemma stoi_leading_numeral:
  "stoi s =
     (if \<not> is_numeral (leading_numeral s) then Inl (Invalid_argument ''stoi'')
      else if \<not> in_int_range (numeral_int (leading_numeral s)) then Inl (Out_of_range ''stoi'')
      else Inr (of_int (numeral_int (leading_numeral s))))"
proof -
  let ?s1 = "dropWhile isspace s"
  have d: "digits_part ?s1 =
      (if ?s1 \<noteq> [] \<and> (hd ?s1 = CHR ''-'' \<or> hd ?s1 = CHR ''+'') then tl ?s1 else ?s1)"
    by (auto simp: digits_part_def sign_part_def drop_Suc)
  have n: "sign_part ?s1 = ''-'' \<longleftrightarrow> ?s1 \<noteq> [] \<and> hd ?s1 = CHR ''-''"
    by (auto simp: sign_part_def)
  show ?thesis
    unfolding is_numeral_leading numeral_int_leading n d stoi_def Let_def
    by (auto simp: in_int_range_def INT_MIN_def INT_MAX_def)
qed

lemma is_numeral_whole:
  assumes "is_numeral t"
  shows "leading_numeral t = t"
proof -
  from assms have ne: "digits_part t \<noteq> []" and all: "list_all isdigit (digits_part t)"
    by (simp_all add: is_numeral_def)
  have t: "t = sign_part t @ digits_part t" by (simp add: sign_digits_append)
  have "t \<noteq> []" using ne by (auto simp: digits_part_def)
  moreover have "\<not> isspace (hd t)"
  proof (cases "sign_part t = []")
    case True
    then have "t = digits_part t" using t by simp
    with ne all have "isdigit (hd t)" by (cases t) (auto simp: list_all_iff)
    then show ?thesis by (rule isdigit_not_space)
  next
    case False
    then have "hd t = CHR ''+'' \<or> hd t = CHR ''-''"
      by (auto simp: sign_part_def split: if_splits)
    then show ?thesis using sign_not_space by auto
  qed
  ultimately have "dropWhile isspace t = t" by (cases t) auto
  moreover have "takeWhile isdigit (digits_part t) = digits_part t"
    using all by (simp add: list_all_iff takeWhile_eq_all_conv)
  ultimately have "leading_numeral t = sign_part t @ digits_part t"
    by (simp add: leading_numeral_def Let_def)
  then show ?thesis by (simp only: sign_digits_append)
qed

lemma integer_text_begins: "integer_text t \<Longrightarrow> begins_with_integer t"
  by (simp add: integer_text_def begins_with_integer_def is_numeral_whole)

lemma sint_of_int_in_range:
  "in_int_range v \<Longrightarrow> sint (of_int v :: cint) = v"
  by (simp add: in_int_range_def INT_MIN_def INT_MAX_def sint_sbintrunc'
        signed_take_bit_int_eq_self)

subsection \<open>Filters\<close>

text \<open>
  C5. The EVEN and ODD predicates partition the values of \<^verbatim>\<open>int\<close>: on every value,
  negative ones included, exactly one of \<^verbatim>\<open>EvenNumberFilter::keep\<close> and
  \<^verbatim>\<open>OddNumberFilter::keep\<close> is true, that is, the two results always differ.
\<close>

theorem even_odd_partition:
  "keep EvenNumberFilter v \<noteq> keep OddNumberFilter v"
  by simp

text \<open>The partition at the negative value \<open>-3\<close>, which only the ODD filter keeps.\<close>

theorem even_odd_partition_witness:
  "keep EvenNumberFilter (- 3) \<noteq> keep OddNumberFilter (- 3) \<and> keep OddNumberFilter (- 3)"
  using even_odd_partition [of "- 3"] by simp

text \<open>
  C6. For every threshold \<open>T\<close>, \<^verbatim>\<open>GreaterThanFilter(T).keep(v)\<close> is true exactly when
  \<open>v\<close> is strictly greater than \<open>T\<close> as a signed integer, and it is false for \<open>v = T\<close>.
\<close>

theorem greater_than_strict:
  "(keep (GreaterThanFilter T) v \<longleftrightarrow> sint T < sint v)
   \<and> (keep (GreaterThanFilter T) v \<longleftrightarrow> T <s v)
   \<and> \<not> keep (GreaterThanFilter T) T"
  by (simp add: word_sless_alt)

text \<open>The filter at threshold \<open>0\<close>: \<open>5\<close> is kept, \<open>-2\<close> and \<open>0\<close> itself are not.\<close>

theorem greater_than_strict_witness:
  "keep (GreaterThanFilter 0) 5 \<and> \<not> keep (GreaterThanFilter 0) (- 2)
   \<and> \<not> keep (GreaterThanFilter 0) 0"
  using greater_than_strict [of 0 5] greater_than_strict [of 0 "- 2"] by simp

subsection \<open>Filter factory\<close>

lemma creators_new_FilterFactory:
  "creators new_FilterFactory t =
     (if t = ''GT'' then Some gt_creator
      else if t = ''ODD'' then Some (\<lambda>_. Inr OddNumberFilter)
      else if t = ''EVEN'' then Some (\<lambda>_. Inr EvenNumberFilter)
      else None)"
  by (simp add: new_FilterFactory_def registerFilter_def)

lemma gt_creator_leading_numeral:
  "gt_creator a =
     (if \<not> is_numeral (leading_numeral a)
      then Inl (Invalid_argument (''Invalid argument for GT filter: '' @ a))
      else if \<not> in_int_range (numeral_int (leading_numeral a))
      then Inl (Out_of_range (''Argument out of range for GT filter: '' @ a))
      else Inr (GreaterThanFilter (of_int (numeral_int (leading_numeral a)))))"
  by (simp add: gt_creator_def stoi_leading_numeral)

text \<open>
  C7 as stated does not hold: the arguments 5abc and 1.5 do not parse as
  integers, yet for the type GT \<^verbatim>\<open>createFilter\<close> does not fail on them: it returns the
  filters with the thresholds 5 and 1.
\<close>

theorem createFilter_takes_trailing_characters_counterexample:
  "\<not> integer_text ''5abc''
   \<and> createFilter new_FilterFactory ''GT'' ''5abc'' = Inr (GreaterThanFilter 5)
   \<and> \<not> integer_text ''1.5''
   \<and> createFilter new_FilterFactory ''GT'' ''1.5'' = Inr (GreaterThanFilter 1)"
proof -
  have "\<not> integer_text ''5abc''" "\<not> integer_text ''1.5''" by code_simp+
  moreover have "gt_creator ''5abc'' = Inr (GreaterThanFilter 5)"
    "gt_creator ''1.5'' = Inr (GreaterThanFilter 1)"
    by code_simp+
  ultimately show ?thesis
    by (simp add: createFilter_def creators_new_FilterFactory)
qed

text \<open>
  C7 as amended. \<^verbatim>\<open>createFilter\<close> fails with the unknown-filter-type error for every type
  name that is not registered, in any factory and in particular, in the factory the
  constructor builds, for every name other than EVEN, ODD and GT. For GT it looks only at
  the start of the argument: after white space, if any, an optional sign and the decimal
  digits that follow. It fails with \<^verbatim>\<open>invalid_argument\<close> when there is no digit
  there, and with the distinct \<^verbatim>\<open>out_of_range\<close> when the digits give a value outside
  the range of \<^verbatim>\<open>int\<close>; otherwise it returns the filter whose threshold is that
  value, whatever characters follow the digits. An argument that is an integer within
  range is such a start as a whole. EVEN and ODD return their filters whatever the
  argument.
\<close>

theorem createFilter_outcomes:
  "(creators f t = None \<longrightarrow>
      createFilter f t a = Inl (Invalid_argument (''Unknown filter type: '' @ t)))
   \<and> (t \<notin> {''EVEN'', ''ODD'', ''GT''} \<longrightarrow>
      createFilter new_FilterFactory t a = Inl (Invalid_argument (''Unknown filter type: '' @ t)))
   \<and> (\<not> is_numeral (leading_numeral a) \<longrightarrow>
      createFilter new_FilterFactory ''GT'' a =
        Inl (Invalid_argument (''Invalid argument for GT filter: '' @ a)))
   \<and> (is_numeral (leading_numeral a) \<and> \<not> in_int_range (numeral_int (leading_numeral a)) \<longrightarrow>
      createFilter new_FilterFactory ''GT'' a =
        Inl (Out_of_range (''Argument out of range for GT filter: '' @ a)))
   \<and> (begins_with_integer a \<longrightarrow>
      createFilter new_FilterFactory ''GT'' a =
        Inr (GreaterThanFilter (of_int (numeral_int (leading_numeral a))))
      \<and> sint (of_int (numeral_int (leading_numeral a)) :: cint) = numeral_int (leading_numeral a))
   \<and> (integer_text a \<longrightarrow> begins_with_integer a \<and> leading_numeral a = a)
   \<and> createFilter new_FilterFactory ''EVEN'' a = Inr EvenNumberFilter
   \<and> createFilter new_FilterFactory ''ODD'' a = Inr OddNumberFilter"
  by (simp add: createFilter_def creators_new_FilterFactory gt_creator_leading_numeral
        begins_with_integer_def integer_text_def sint_of_int_in_range is_numeral_whole)

text \<open>
  Each case at a concrete input: an empty factory, the unregistered name \<open>even\<close>, and
  the GT arguments \<open>abc\<close>, the empty one, the two ends of the range and their neighbours
  outside it, and an integer after white space and before other characters.
\<close>

theorem createFilter_outcomes_witness:
  "creators \<lparr>creators = Map.empty\<rparr> ''EVEN'' = None
   \<and> createFilter \<lparr>creators = Map.empty\<rparr> ''EVEN'' [] =
       Inl (Invalid_argument ''Unknown filter type: EVEN'')
   \<and> ''even'' \<notin> {''EVEN'', ''ODD'', ''GT''}
   \<and> createFilter new_FilterFactory ''even'' [] =
       Inl (Invalid_argument ''Unknown filter type: even'')
   \<and> \<not> is_numeral (leading_numeral ''abc'')
   \<and> createFilter new_FilterFactory ''GT'' ''abc'' =
       Inl (Invalid_argument ''Invalid argument for GT filter: abc'')
   \<and> \<not> is_numeral (leading_numeral [])
   \<and> createFilter new_FilterFactory ''GT'' [] =
       Inl (Invalid_argument ''Invalid argument for GT filter: '')
   \<and> is_numeral (leading_numeral ''2147483648'')
   \<and> \<not> in_int_range (numeral_int (leading_numeral ''2147483648''))
   \<and> createFilter new_FilterFactory ''GT'' ''2147483648'' =
       Inl (Out_of_range ''Argument out of range for GT filter: 2147483648'')
   \<and> is_numeral (leading_numeral ''-2147483649'')
   \<and> \<not> in_int_range (numeral_int (leading_numeral ''-2147483649''))
   \<and> createFilter new_FilterFactory ''GT'' ''-2147483649'' =
       Inl (Out_of_range ''Argument out of range for GT filter: -2147483649'')
   \<and> begins_with_integer ''2147483647''
   \<and> createFilter new_FilterFactory ''GT'' ''2147483647'' = Inr (GreaterThanFilter 2147483647)
   \<and> begins_with_integer ''-2147483648''
   \<and> createFilter new_FilterFactory ''GT'' ''-2147483648'' =
       Inr (GreaterThanFilter (- 2147483648))
   \<and> begins_with_integer '' +42abc''
   \<and> createFilter new_FilterFactory ''GT'' '' +42abc'' = Inr (GreaterThanFilter 42)
   \<and> integer_text ''5'' \<and> leading_numeral ''5'' = ''5''
   \<and> createFilter new_FilterFactory ''GT'' ''5'' = Inr (GreaterThanFilter 5)"
proof -
  have i: "\<not> is_numeral (leading_numeral ''abc'')" "\<not> is_numeral (leading_numeral [])"
    by code_simp+
  have r: "is_numeral (leading_numeral ''2147483648'')"
    "\<not> in_int_range (numeral_int (leading_numeral ''2147483648''))"
    "is_numeral (leading_numeral ''-2147483649'')"
    "\<not> in_int_range (numeral_int (leading_numeral ''-2147483649''))"
    by code_simp+
  have b: "begins_with_integer ''2147483647''" "begins_with_integer ''-2147483648''"
    "begins_with_integer '' +42abc''" "integer_text ''5''"
    by code_simp+
  have v: "numeral_int (leading_numeral ''2147483647'') = 2147483647"
    "numeral_int (leading_numeral ''-2147483648'') = - 2147483648"
    "numeral_int (leading_numeral '' +42abc'') = 42"
    "numeral_int ''5'' = 5"
    by code_simp+
  from createFilter_outcomes [of "\<lparr>creators = Map.empty\<rparr>" "''EVEN''" "[]"]
    createFilter_outcomes [of _ "''even''" "[]"]
    createFilter_outcomes [of _ _ "''abc''"]
    createFilter_outcomes [of _ _ "[]"]
    createFilter_outcomes [of _ _ "''2147483648''"]
    createFilter_outcomes [of _ _ "''-2147483649''"]
    createFilter_outcomes [of _ _ "''2147483647''"]
    createFilter_outcomes [of _ _ "''-2147483648''"]
    createFilter_outcomes [of _ _ "'' +42abc''"]
    createFilter_outcomes [of _ _ "''5''"]
    i r b v
  show ?thesis by simp
qed

subsection \<open>Reader\<close>

lemma spec_tokens_from_skip_spaces:
  "\<forall>c\<in>set a. isspace c \<Longrightarrow> spec_tokens_from [] (a @ s) = spec_tokens_from [] s"
  by (induction a) simp_all

lemma spec_tokens_from_take_word:
  "\<forall>c\<in>set a. \<not> isspace c \<Longrightarrow> spec_tokens_from cur (a @ s) = spec_tokens_from (cur @ a) s"
  by (induction a arbitrary: cur) simp_all

lemma spec_tokens_from_end_word:
  "cur \<noteq> [] \<Longrightarrow> s = [] \<or> isspace (hd s) \<Longrightarrow> spec_tokens_from cur s = cur # spec_tokens_from [] s"
  by (cases s) auto

lemma spec_tokens_from_split:
  "isspace c \<Longrightarrow> spec_tokens_from cur (a @ c # b) = spec_tokens_from cur a @ spec_tokens_from [] b"
  by (induction a arbitrary: cur) simp_all

lemma extract_word_None:
  assumes "extract_word s = None"
  shows "spec_tokens s = []"
proof -
  from assms have "dropWhile isspace s = []"
    by (simp add: extract_word_def Let_def split: if_splits)
  then have "\<forall>c\<in>set s. isspace c" by simp
  then have "spec_tokens_from [] (s @ []) = spec_tokens_from [] []"
    by (rule spec_tokens_from_skip_spaces)
  then show ?thesis by (simp add: spec_tokens_def)
qed

lemma extract_word_Some:
  assumes "extract_word s = Some (t, r)"
  shows "spec_tokens s = t # spec_tokens r"
proof -
  let ?s' = "dropWhile isspace s"
  from assms have ne: "?s' \<noteq> []"
    and t: "t = takeWhile (\<lambda>c. \<not> isspace c) ?s'"
    and r: "r = dropWhile (\<lambda>c. \<not> isspace c) ?s'"
    by (simp_all add: extract_word_def Let_def split: if_splits)
  from ne have "\<not> isspace (hd ?s')" by (rule hd_dropWhile)
  with ne t have t_ne: "t \<noteq> []" by (cases ?s') simp_all
  have r_hd: "r = [] \<or> isspace (hd r)"
    using hd_dropWhile [of "\<lambda>c. \<not> isspace c" ?s'] r by auto
  have t_word: "\<forall>c\<in>set t. \<not> isspace c"
    unfolding t by (auto dest: set_takeWhileD)
  have "spec_tokens_from [] s = spec_tokens_from [] (takeWhile isspace s @ ?s')"
    by simp
  also have "\<dots> = spec_tokens_from [] ?s'"
    by (rule spec_tokens_from_skip_spaces) (auto dest: set_takeWhileD)
  also have "?s' = t @ r" by (simp add: t r)
  also have "spec_tokens_from [] (t @ r) = spec_tokens_from ([] @ t) r"
    using t_word by (rule spec_tokens_from_take_word)
  also have "\<dots> = t # spec_tokens_from [] r"
    using t_ne r_hd by (simp add: spec_tokens_from_end_word)
  finally show ?thesis by (simp add: spec_tokens_def)
qed

lemma getline_Some:
  assumes "getline s = Some (l, r)"
  shows "spec_tokens s = spec_tokens l @ spec_tokens r"
proof -
  let ?d = "dropWhile (\<lambda>c. c \<noteq> CHR 0x0A) s"
  from assms have l: "l = takeWhile (\<lambda>c. c \<noteq> CHR 0x0A) s" and r: "r = drop 1 ?d"
    by (simp_all add: getline_def split: if_splits)
  have s: "s = l @ ?d" by (simp add: l)
  show ?thesis
  proof (cases ?d)
    case Nil
    with s r l show ?thesis by (simp add: spec_tokens_def)
  next
    case (Cons c d')
    then have "c = CHR 0x0A" using hd_dropWhile [of "\<lambda>c. c \<noteq> CHR 0x0A" s] by auto
    then have "isspace c" by (simp add: isspace_def)
    moreover from Cons s r have "s = l @ c # r" by simp
    ultimately show ?thesis
      using spec_tokens_from_split [of c "[]" l r] by (simp add: spec_tokens_def)
  qed
qed

lemma getline_None: "getline s = None \<Longrightarrow> spec_tokens s = []"
  by (simp add: getline_def spec_tokens_def split: if_splits)

lemma leading_values_simps:
  "leading_values [] = []"
  "leading_values (t # ts) =
     (if begins_with_integer t then [of_int (numeral_int (leading_numeral t))] else [])
       @ leading_values ts"
  "leading_values (ts @ us) = leading_values ts @ leading_values us"
  by (simp_all add: leading_values_def)

lemma skip_warnings_simps:
  "skip_warnings [] = []"
  "skip_warnings (t # ts) =
     (if begins_with_integer t then [] else [skip_warning t]) @ skip_warnings ts"
  "skip_warnings (ts @ us) = skip_warnings ts @ skip_warnings us"
  by (simp_all add: skip_warnings_def)

text \<open>The three outcomes of \<^verbatim>\<open>stoi\<close> on a token, each with what the token adds.\<close>

lemma stoi_token_cases:
  obtains
    (kept) "begins_with_integer t" "stoi t = Inr (of_int (numeral_int (leading_numeral t)))"
  | (invalid) "\<not> begins_with_integer t" "stoi t = Inl (Invalid_argument ''stoi'')"
      "skip_warning t = ''Warning: Invalid number in file: '' @ t @ ''. Skipping.''"
  | (range) "\<not> begins_with_integer t" "stoi t = Inl (Out_of_range ''stoi'')"
      "skip_warning t = ''Warning: Number out of range in file: '' @ t @ ''. Skipping.''"
  by (cases "is_numeral (leading_numeral t)"; cases "in_int_range (numeral_int (leading_numeral t))")
     (simp_all add: stoi_leading_numeral begins_with_integer_def integer_text_def skip_warning_def)

lemma io_cerr_append:
  "w\<lparr>cerr := cerr w @ a\<rparr>\<lparr>cerr := cerr (w\<lparr>cerr := cerr w @ a\<rparr>) @ b\<rparr> = w\<lparr>cerr := cerr w @ a @ b\<rparr>"
  "w\<lparr>cerr := cerr w @ []\<rparr> = w"
  "w\<lparr>cerr := cerr w\<rparr> = w"
  by simp_all

lemma read_words_tokens:
  "read_words ss numbers w =
     (Inr (numbers @ leading_values (spec_tokens ss)),
      w\<lparr>cerr := cerr w @ skip_warnings (spec_tokens ss)\<rparr>)"
proof (induction ss numbers w rule: read_words.induct)
  case (1 ss numbers w)
  show ?case
  proof (cases "extract_word ss")
    case None
    then show ?thesis
      by (subst read_words.simps)
         (simp add: extract_word_None leading_values_simps skip_warnings_simps)
  next
    case (Some tr)
    obtain t r where tr: "tr = (t, r)" by (cases tr)
    with Some have ex: "extract_word ss = Some (t, r)" by simp
    note toks = extract_word_Some [OF ex]
    show ?thesis
    proof (cases t rule: stoi_token_cases)
      case kept
      let ?n = "of_int (numeral_int (leading_numeral t)) :: cint"
      have "read_words ss numbers w = read_words r (numbers @ [?n]) w"
        using ex kept by (subst read_words.simps) simp
      also have "\<dots> = (Inr ((numbers @ [?n]) @ leading_values (spec_tokens r)),
          w\<lparr>cerr := cerr w @ skip_warnings (spec_tokens r)\<rparr>)"
        using "1.IH" ex kept by simp
      finally show ?thesis
        using kept toks by (simp add: leading_values_simps skip_warnings_simps)
    next
      case invalid
      let ?w = "w\<lparr>cerr := cerr w @ [''Warning: Invalid number in file: '' @ t @ ''. Skipping.'']\<rparr>"
      have "read_words ss numbers w = read_words r numbers ?w"
        using ex invalid by (subst read_words.simps) simp
      also have "\<dots> = (Inr (numbers @ leading_values (spec_tokens r)),
          ?w\<lparr>cerr := cerr ?w @ skip_warnings (spec_tokens r)\<rparr>)"
        using "1.IH" ex invalid by simp
      finally show ?thesis
        using invalid toks by (simp add: leading_values_simps skip_warnings_simps)
    next
      case range
      let ?w = "w\<lparr>cerr := cerr w @ [''Warning: Number out of range in file: '' @ t @ ''. Skipping.'']\<rparr>"
      have "read_words ss numbers w = read_words r numbers ?w"
        using ex range by (subst read_words.simps) simp
      also have "\<dots> = (Inr (numbers @ leading_values (spec_tokens r)),
          ?w\<lparr>cerr := cerr ?w @ skip_warnings (spec_tokens r)\<rparr>)"
        using "1.IH" ex range by simp
      finally show ?thesis
        using range toks by (simp add: leading_values_simps skip_warnings_simps)
    qed
  qed
qed

lemma read_lines_tokens:
  "read_lines s numbers w =
     (Inr (numbers @ leading_values (spec_tokens s)),
      w\<lparr>cerr := cerr w @ skip_warnings (spec_tokens s)\<rparr>)"
proof (induction s numbers w rule: read_lines.induct)
  case (1 s numbers w)
  show ?case
  proof (cases "getline s")
    case None
    then show ?thesis
      by (subst read_lines.simps)
         (simp add: getline_None leading_values_simps skip_warnings_simps)
  next
    case (Some lr)
    obtain l r where lr: "lr = (l, r)" by (cases lr)
    with Some have gl: "getline s = Some (l, r)" by simp
    let ?ns = "numbers @ leading_values (spec_tokens l)"
    let ?w = "w\<lparr>cerr := cerr w @ skip_warnings (spec_tokens l)\<rparr>"
    have "read_lines s numbers w = read_lines r ?ns ?w"
      using gl by (subst read_lines.simps) (simp add: read_words_tokens)
    also have "\<dots> = (Inr (?ns @ leading_values (spec_tokens r)),
        ?w\<lparr>cerr := cerr ?w @ skip_warnings (spec_tokens r)\<rparr>)"
      using "1.IH" gl by (simp add: read_words_tokens)
    finally show ?thesis
      using getline_Some [OF gl] by (simp add: leading_values_simps skip_warnings_simps)
  qed
qed

lemma read_tokens: "files w filename = Some content \<Longrightarrow>
  read filename w = (Inr (leading_values (spec_tokens content)), w\<lparr>cerr := cerr w @ skip_warnings (spec_tokens content)\<rparr>)"
  by (simp add: read_def read_lines_tokens)

lemma token_counts:
  "length (skip_warnings ts) = length (filter (\<lambda>t. \<not> begins_with_integer t) ts)"
  "length (leading_values ts) + length (skip_warnings ts) = length ts"
  by (simp_all add: leading_values_def skip_warnings_def sum_length_filter_compl)

lemma sint_leading_values:
  "map sint (leading_values ts) =
     map (\<lambda>t. numeral_int (leading_numeral t)) (filter begins_with_integer ts)"
  by (simp add: leading_values_def begins_with_integer_def integer_text_def
        sint_of_int_in_range)

lemma read_unopenable:
  "files w filename = None \<Longrightarrow>
   read filename w = (Inl (Runtime_error (''Could not open file: '' @ filename)), w)"
  by (simp add: read_def)


lemma example_tokens:
  "spec_tokens example_content = [''2'', ''3'', ''x'', ''4'', ''5'', ''-2'']"
  by code_simp

lemma example_values:
  "leading_values [''2'', ''3'', ''x'', ''4'', ''5'', ''-2''] = [2, 3, 4, 5, - 2]"
  by code_simp

lemma example_warnings:
  "skip_warnings [''2'', ''3'', ''x'', ''4'', ''5'', ''-2''] =
     [''Warning: Invalid number in file: x. Skipping.'']"
  by code_simp

lemma trailing_tokens:
  "spec_tokens ''12abc 1.5 0x1A'' = [''12abc'', ''1.5'', ''0x1A'']"
  by code_simp

lemma trailing_values: "leading_values [''12abc'', ''1.5'', ''0x1A''] = [12, 1, 0]"
  by code_simp

lemma trailing_warnings: "skip_warnings [''12abc'', ''1.5'', ''0x1A''] = []"
  by code_simp

lemma trailing_not_integers:
  "\<not> integer_text ''12abc''" "\<not> integer_text ''1.5''" "\<not> integer_text ''0x1A''"
  by code_simp+

lemma boundary_tokens:
  "spec_tokens ''-2147483649 -2147483648 2147483647 2147483648'' =
     [''-2147483649'', ''-2147483648'', ''2147483647'', ''2147483648'']"
  by code_simp

lemma boundary_values:
  "leading_values [''-2147483649'', ''-2147483648'', ''2147483647'', ''2147483648''] =
     [- 2147483648, 2147483647]"
  by code_simp

lemma boundary_warnings:
  "skip_warnings [''-2147483649'', ''-2147483648'', ''2147483647'', ''2147483648''] =
     [''Warning: Number out of range in file: -2147483649. Skipping.'',
      ''Warning: Number out of range in file: 2147483648. Skipping.'']"
  by code_simp

text \<open>
  C1 as stated does not hold: in a file with the three tokens 12abc, 1.5 and 0x1A
  no token is an integer, yet \<^verbatim>\<open>read\<close> excludes none of them and writes no warning: it
  returns 12, 1 and 0 and leaves the error stream as it was.
\<close>

theorem read_keeps_trailing_characters_counterexample:
  "files trailing_world ''in.txt'' = Some ''12abc 1.5 0x1A''
   \<and> spec_tokens ''12abc 1.5 0x1A'' = [''12abc'', ''1.5'', ''0x1A'']
   \<and> \<not> integer_text ''12abc'' \<and> \<not> integer_text ''1.5'' \<and> \<not> integer_text ''0x1A''
   \<and> read ''in.txt'' trailing_world = (Inr [12, 1, 0], trailing_world)"
proof -
  have f: "files trailing_world ''in.txt'' = Some ''12abc 1.5 0x1A''"
    and e: "cerr trailing_world = []"
    by (simp_all add: trailing_world_def)
  from read_tokens [OF f] show ?thesis
    by (simp add: f e trailing_tokens trailing_values trailing_warnings trailing_not_integers)
qed

text \<open>
  C1 as amended. For every file the reader can open, \<^verbatim>\<open>FileReader::read\<close> returns
  normally. Of each white-space separated token it looks only at the start: an optional
  sign and the decimal digits that follow. The sequence it returns is made of the values
  of exactly those tokens that begin in this way with an integer within the range of
  \<^verbatim>\<open>int\<close>, in the order of the tokens (left to right, top to bottom), whatever
  characters follow the digits; every other token, one with no digit at its start or
  with digits that give a value outside the range, adds nothing to the sequence and
  exactly one warning to the error stream, and the read goes on. A token that is an
  integer within range as a whole is kept with its value.
\<close>

theorem read_returns_leading_integers:
  "files w filename = Some content \<Longrightarrow>
     read filename w =
       (Inr (leading_values (spec_tokens content)),
        w\<lparr>cerr := cerr w @ skip_warnings (spec_tokens content)\<rparr>)
     \<and> map sint (leading_values (spec_tokens content)) =
         map (\<lambda>t. numeral_int (leading_numeral t))
           (filter begins_with_integer (spec_tokens content))
     \<and> length (skip_warnings (spec_tokens content)) =
         length (filter (\<lambda>t. \<not> begins_with_integer t) (spec_tokens content))
     \<and> (\<forall>t. integer_text t \<longrightarrow> begins_with_integer t \<and> leading_numeral t = t)"
  by (simp add: read_tokens token_counts sint_leading_values integer_text_begins)
     (simp add: integer_text_def is_numeral_whole)

text \<open>
  The file with the values around the ends of the range, where the two values outside it
  each give a warning, and the example file, where the token \<open>x\<close> gives one.
\<close>

theorem read_returns_leading_integers_witness:
  "files boundary_world ''in.txt'' = Some ''-2147483649 -2147483648 2147483647 2147483648''
   \<and> read ''in.txt'' boundary_world =
       (Inr [- 2147483648, 2147483647],
        boundary_world\<lparr>cerr :=
          [''Warning: Number out of range in file: -2147483649. Skipping.'',
           ''Warning: Number out of range in file: 2147483648. Skipping.'']\<rparr>)
   \<and> files example_world ''numbers.txt'' = Some example_content
   \<and> spec_tokens example_content = [''2'', ''3'', ''x'', ''4'', ''5'', ''-2'']
   \<and> read ''numbers.txt'' example_world =
       (Inr [2, 3, 4, 5, - 2],
        example_world\<lparr>cerr := [''Warning: Invalid number in file: x. Skipping.'']\<rparr>)"
proof -
  have b: "files boundary_world ''in.txt'' = Some ''-2147483649 -2147483648 2147483647 2147483648''"
    and be: "cerr boundary_world = []"
    by (simp_all add: boundary_world_def)
  have f: "files example_world ''numbers.txt'' = Some example_content"
    and e: "cerr example_world = []"
    by (simp_all add: example_world_def)
  from read_returns_leading_integers [OF b] read_returns_leading_integers [OF f]
  show ?thesis
    by (simp add: b be f e boundary_tokens boundary_values boundary_warnings
          example_tokens example_values example_warnings)
qed

subsection \<open>Pipeline driver\<close>

lemma process_numbers_fold:
  "process_numbers p numbers w = fold (notifyObservers p) (filter (keep (p_filter p)) numbers) w"
  by (induction numbers arbitrary: w) simp_all

lemma run_reader_Inr:
  "p_reader p filename w = (Inr numbers, w') \<Longrightarrow>
   run p filename w =
     (Inr (), notifyFinished p (fold (notifyObservers p) (filter (keep (p_filter p)) numbers) w'))"
  by (simp add: run_def process_numbers_fold)

lemma run_reader_Runtime_error:
  "p_reader p filename w = (Inl (Runtime_error m), w') \<Longrightarrow>
   run p filename w = (Inr (), w'\<lparr>cerr := cerr w' @ [''Error during processing: '' @ m]\<rparr>)"
  by (simp add: run_def)

lemma calls_fold_probes:
  "p_observers p = [probe a, probe b] \<Longrightarrow>
   calls (fold (notifyObservers p) ns w) =
     calls w @ concat (map (\<lambda>n. [On_number a n, On_number b n]) ns)"
  by (induction ns arbitrary: w) (simp_all add: notifyObservers_def probe_def)

text \<open>
  C3. With two recording observers registered in the order \<open>[a, b]\<close>, \<^verbatim>\<open>run\<close> makes
  exactly these calls, in this order: for each number the reader returned that the
  filter keeps, in the order read, \<^verbatim>\<open>on_number\<close> of \<open>a\<close> and then of \<open>b\<close>; and
  after the last number, \<^verbatim>\<open>on_finished\<close> of \<open>a\<close> and then of \<open>b\<close>.
\<close>

theorem run_notification_order:
  assumes "p_reader p filename w = (Inr numbers, w')"
    and "p_observers p = [probe a, probe b]"
  shows "fst (run p filename w) = Inr () \<and>
    calls (snd (run p filename w)) =
      calls w' @ concat (map (\<lambda>n. [On_number a n, On_number b n])
                            (filter (keep (p_filter p)) numbers))
        @ [On_finished a, On_finished b]"
  using assms
  by (simp add: run_reader_Inr calls_fold_probes notifyFinished_def)
     (simp add: probe_def calls_fold_probes)

text \<open>The example file under the filter GT0: 2, 3, 4 and 5 are kept, \<open>-2\<close> is not.\<close>

theorem run_notification_order_witness:
  "p_reader \<lparr>p_reader = read, p_filter = GreaterThanFilter 0,
             p_observers = [probe ''A'', probe ''B'']\<rparr> ''numbers.txt'' example_probe_world =
     (Inr [2, 3, 4, 5, - 2],
      example_probe_world\<lparr>cerr := [''Warning: Invalid number in file: x. Skipping.'']\<rparr>)
   \<and> calls (snd (run \<lparr>p_reader = read, p_filter = GreaterThanFilter 0,
                       p_observers = [probe ''A'', probe ''B'']\<rparr> ''numbers.txt'' example_probe_world)) =
       [On_number ''A'' 2, On_number ''B'' 2, On_number ''A'' 3, On_number ''B'' 3,
        On_number ''A'' 4, On_number ''B'' 4, On_number ''A'' 5, On_number ''B'' 5,
        On_finished ''A'', On_finished ''B'']"
proof -
  let ?p = "\<lparr>p_reader = read, p_filter = GreaterThanFilter 0,
             p_observers = [probe ''A'', probe ''B'']\<rparr> :: probe_state NumberProcessor"
  have f: "files example_probe_world ''numbers.txt'' = Some example_content"
    and e: "cerr example_probe_world = []" and c: "calls example_probe_world = []"
    by (simp_all add: example_probe_world_def)
  have r: "p_reader ?p ''numbers.txt'' example_probe_world =
     (Inr [2, 3, 4, 5, - 2],
      example_probe_world\<lparr>cerr := [''Warning: Invalid number in file: x. Skipping.'']\<rparr>)"
    using read_tokens [OF f]
    by (simp add: example_tokens example_values example_warnings e)
  have o: "p_observers ?p = [probe ''A'', probe ''B'']" by simp
  from run_notification_order [OF r o] r show ?thesis
    by (simp add: c)
qed

text \<open>
  C4. When the reader throws \<^verbatim>\<open>runtime_error\<close>, \<^verbatim>\<open>run\<close> returns normally with the
  state the reader left, changed only by the report on the error stream: no method of
  any observer has acted on it. \<^verbatim>\<open>FileReader::read\<close> throws this error when the file
  cannot be opened, and then recording observers record no call, neither
  \<^verbatim>\<open>on_number\<close> nor \<^verbatim>\<open>on_finished\<close>.
\<close>

theorem run_aborts_on_io_error:
  "(p_reader p filename w = (Inl (Runtime_error m), w') \<longrightarrow>
      run p filename w = (Inr (), w'\<lparr>cerr := cerr w' @ [''Error during processing: '' @ m]\<rparr>))
   \<and> (files w filename = None \<longrightarrow>
      read filename w = (Inl (Runtime_error (''Could not open file: '' @ filename)), w)
      \<and> run \<lparr>p_reader = read, p_filter = f, p_observers = obs\<rparr> filename w =
          (Inr (), w\<lparr>cerr := cerr w @ [''Error during processing: Could not open file: '' @ filename]\<rparr>))
   \<and> (files v filename = None \<longrightarrow>
      calls (snd (run \<lparr>p_reader = read, p_filter = f, p_observers = map probe names\<rparr> filename v))
        = calls v)"
  by (simp add: run_reader_Runtime_error read_unopenable)

text \<open>A file that is not there, with two recording observers.\<close>

theorem run_aborts_on_io_error_witness:
  "files example_probe_world ''missing.txt'' = None
   \<and> p_reader \<lparr>p_reader = read, p_filter = EvenNumberFilter,
               p_observers = [probe ''A'', probe ''B'']\<rparr> ''missing.txt'' example_probe_world =
       (Inl (Runtime_error ''Could not open file: missing.txt''), example_probe_world)
   \<and> run \<lparr>p_reader = read, p_filter = EvenNumberFilter,
           p_observers = [probe ''A'', probe ''B'']\<rparr> ''missing.txt'' example_probe_world =
       (Inr (), example_probe_world\<lparr>cerr := [''Error during processing: Could not open file: missing.txt'']\<rparr>)
   \<and> calls (snd (run \<lparr>p_reader = read, p_filter = EvenNumberFilter,
           p_observers = [probe ''A'', probe ''B'']\<rparr> ''missing.txt'' example_probe_world)) = []"
proof -
  have f: "files example_probe_world ''missing.txt'' = None"
    by (simp add: example_probe_world_def)
  have e: "cerr example_probe_world = []" "calls example_probe_world = []"
    by (simp_all add: example_probe_world_def)
  from run_aborts_on_io_error [of "\<lparr>p_reader = read, p_filter = EvenNumberFilter,
           p_observers = [probe ''A'', probe ''B'']\<rparr>" "''missing.txt''" example_probe_world
          "''Could not open file: missing.txt''" example_probe_world EvenNumberFilter
          "[probe ''A'', probe ''B'']" example_probe_world "[''A'', ''B'']"] f e
  show ?thesis by simp
qed

subsection \<open>The program\<close>

lemma run_read_returns:
  "fst (run \<lparr>p_reader = read, p_filter = f, p_observers = obs\<rparr> filename w) = Inr ()"
  by (cases "files w filename")
     (simp_all add: run_reader_Runtime_error read_unopenable run_reader_Inr read_tokens)

lemma gt_creator_cases:
  "gt_creator a =
     (case stoi a of
        Inr n \<Rightarrow> Inr (GreaterThanFilter n)
      | Inl (Invalid_argument _) \<Rightarrow> Inl (Invalid_argument (''Invalid argument for GT filter: '' @ a))
      | Inl _ \<Rightarrow> Inl (Out_of_range (''Argument out of range for GT filter: '' @ a)))"
  using stoi_cases [of a] by (auto simp: gt_creator_def)

lemma gt_creator_not_runtime_error: "gt_creator a \<noteq> Inl (Runtime_error m)"
  using stoi_cases [of a] by (auto simp: gt_creator_def)

lemma gt_creator_not_unknown:
  "gt_creator a \<noteq> Inl (Invalid_argument (''Unknown filter type: '' @ t))"
  using stoi_cases [of a] by (auto simp: gt_creator_def)

lemma main_filter_cases:
  "main_filter a =
     (if starts_with a ''GT'' then gt_creator (drop 2 a)
      else if a = ''ODD'' then Inr OddNumberFilter
      else if a = ''EVEN'' then Inr EvenNumberFilter
      else Inl (Invalid_argument (''Unknown filter type: '' @ a)))"
  by (auto simp: main_filter_def createFilter_def creators_new_FilterFactory starts_with_def)

lemma main_filter_not_runtime_error: "main_filter a \<noteq> Inl (Runtime_error m)"
  by (simp add: main_filter_cases gt_creator_not_runtime_error)

lemma main_filter_taken: "taken_filter_spec a \<longleftrightarrow> \<not> isl (main_filter a)"
  by (simp add: taken_filter_spec_def main_filter_cases gt_creator_leading_numeral
        begins_with_integer_def integer_text_def)

lemma valid_filter_spec_taken: "valid_filter_spec a \<Longrightarrow> taken_filter_spec a"
  by (auto simp: valid_filter_spec_def taken_filter_spec_def starts_with_def
        integer_text_begins)

lemma main_unfold:
  "main prog (a # filename # rest) w =
     (case main_filter a of
        Inl (Invalid_argument m) \<Rightarrow> (Inr 1, w\<lparr>cerr := cerr w @ [''Error: '' @ m]\<rparr>)
      | Inl (Out_of_range m) \<Rightarrow> (Inr 1, w\<lparr>cerr := cerr w @ [''Error: '' @ m]\<rparr>)
      | Inl e \<Rightarrow> (Inl e, w)
      | Inr flt \<Rightarrow>
          (case run \<lparr>p_reader = read, p_filter = flt,
                      p_observers = [PrintObserver, CountObserver]\<rparr> filename (w\<lparr>count := 0\<rparr>) of
             (Inl e, w') \<Rightarrow> (Inl e, w')
           | (Inr _, w') \<Rightarrow> (Inr 0, w')))"
proof -
  have n0: "(a # filename # rest) ! 0 = a" and n1: "(a # filename # rest) ! 1 = filename"
    by simp_all
  have len: "\<not> 1 + length (a # filename # rest) < 3" by simp
  show ?thesis
    unfolding main_def Let_def n0 n1 main_filter_def if_not_P [OF len] ..
qed

lemma main_two_args:
  "main prog (a # filename # rest) w =
     (case main_filter a of
        Inl e \<Rightarrow> (Inr 1, w\<lparr>cerr := cerr w @ [''Error: '' @ what e]\<rparr>)
      | Inr flt \<Rightarrow>
          (Inr 0, snd (run \<lparr>p_reader = read, p_filter = flt,
                            p_observers = [PrintObserver, CountObserver]\<rparr>
                         filename (w\<lparr>count := 0\<rparr>))))"
proof (cases "main_filter a")
  case (Inl e)
  have "e \<noteq> Runtime_error m" for m
    using Inl main_filter_not_runtime_error [of a m] by auto
  with Inl show ?thesis
    by (cases e) (auto simp: main_unfold)
next
  case (Inr flt)
  let ?r = "run \<lparr>p_reader = read, p_filter = flt, p_observers = [PrintObserver, CountObserver]\<rparr>
              filename (w\<lparr>count := 0\<rparr>)"
  have "fst ?r = Inr ()" by (rule run_read_returns)
  then have "?r = (Inr (), snd ?r)" by (metis prod.collapse)
  then have "(case ?r of (Inl e, w') \<Rightarrow> (Inl e, w') | (Inr _, w') \<Rightarrow> (Inr (0::int), w'))
     = (Inr 0, snd ?r)"
    by (metis (mono_tags, lifting) old.prod.case sum.case(2))
  with Inr show ?thesis by (simp add: main_unfold)
qed

lemma main_usage:
  "length args < 2 \<Longrightarrow>
   main prog args w =
     (Inr 1, w\<lparr>cerr := cerr w @ [''Usage: '' @ prog @ '' <filter> <file>'',
                                   ''Available filters: EVEN, ODD, GT<n>'']\<rparr>)"
  by (simp add: main_def)

text \<open>
  C2 as stated does not hold: GT5abc is not a filter specification, since what
  follows GT is not an integer, yet \<^verbatim>\<open>main\<close> takes it as GT with the threshold 5, runs
  the pipeline and returns 0.
\<close>

theorem main_takes_trailing_characters_counterexample:
  "\<not> valid_filter_spec ''GT5abc''
   \<and> \<not> length [''GT5abc'', ''numbers.txt''] < 2
   \<and> main_filter ''GT5abc'' = Inr (GreaterThanFilter 5)
   \<and> fst (main ''prog'' [''GT5abc'', ''numbers.txt''] example_world) = Inr 0"
proof -
  have "\<not> valid_filter_spec ''GT5abc''" by code_simp
  moreover have m: "main_filter ''GT5abc'' = Inr (GreaterThanFilter 5)" by code_simp
  moreover have "fst (main ''prog'' [''GT5abc'', ''numbers.txt''] example_world) = Inr 0"
    by (simp add: main_two_args m)
  ultimately show ?thesis by simp
qed

text \<open>
  C2 as amended. \<^verbatim>\<open>main\<close> returns 1 after printing the usage message when it has fewer
  than two arguments. With two or more, it returns 1 after printing an error when the
  first argument is none of EVEN, ODD and GT followed by a text that begins (after white
  space, if any) with an optionally signed decimal integer within the range of
  \<^verbatim>\<open>int\<close>: the unknown-type error for an argument that does not start with GT, the
  invalid-argument error when no digit follows GT and the sign, the out-of-range error
  when the digits give a value outside the range. In every other case it returns 0:
  for every filter specification of the command line, also for GT followed by an integer
  and further characters, which are ignored, and also when the input file cannot be
  opened, which is only reported on the error stream.
\<close>

theorem main_exit_code:
  "(length args < 2 \<longrightarrow>
      main prog args w =
        (Inr 1, w\<lparr>cerr := cerr w @ [''Usage: '' @ prog @ '' <filter> <file>'',
                                      ''Available filters: EVEN, ODD, GT<n>'']\<rparr>))
   \<and> (\<not> taken_filter_spec a \<longrightarrow>
        main prog (a # filename # rest) w =
          (Inr 1,
           w\<lparr>cerr := cerr w @
             [''Error: '' @
              (if \<not> starts_with a ''GT'' then ''Unknown filter type: '' @ a
               else if \<not> is_numeral (leading_numeral (drop 2 a))
               then ''Invalid argument for GT filter: '' @ drop 2 a
               else ''Argument out of range for GT filter: '' @ drop 2 a)]\<rparr>))
   \<and> (taken_filter_spec a \<longrightarrow> fst (main prog (a # filename # rest) w) = Inr 0)
   \<and> (taken_filter_spec a \<and> files w filename = None \<longrightarrow>
        main prog (a # filename # rest) w =
          (Inr 0, w\<lparr>count := 0,
                     cerr := cerr w @ [''Error during processing: Could not open file: '' @ filename]\<rparr>))
   \<and> (valid_filter_spec a \<longrightarrow> taken_filter_spec a)"
proof (intro conjI impI)
  assume "length args < 2"
  then show "main prog args w =
        (Inr 1, w\<lparr>cerr := cerr w @ [''Usage: '' @ prog @ '' <filter> <file>'',
                                      ''Available filters: EVEN, ODD, GT<n>'']\<rparr>)"
    by (rule main_usage)
next
  assume "\<not> taken_filter_spec a"
  then show "main prog (a # filename # rest) w =
          (Inr 1,
           w\<lparr>cerr := cerr w @
             [''Error: '' @
              (if \<not> starts_with a ''GT'' then ''Unknown filter type: '' @ a
               else if \<not> is_numeral (leading_numeral (drop 2 a))
               then ''Invalid argument for GT filter: '' @ drop 2 a
               else ''Argument out of range for GT filter: '' @ drop 2 a)]\<rparr>)"
    by (auto simp: taken_filter_spec_def main_two_args main_filter_cases
          gt_creator_leading_numeral begins_with_integer_def integer_text_def
          split: if_splits)
next
  assume "taken_filter_spec a"
  then have "\<not> isl (main_filter a)" by (simp add: main_filter_taken)
  then show "fst (main prog (a # filename # rest) w) = Inr 0"
    by (cases "main_filter a") (simp_all add: main_two_args)
next
  assume "taken_filter_spec a \<and> files w filename = None"
  then have ok: "\<not> isl (main_filter a)" and f: "files (w\<lparr>count := 0\<rparr>) filename = None"
    by (simp_all add: main_filter_taken)
  from ok obtain flt where flt: "main_filter a = Inr flt" by (cases "main_filter a") simp_all
  show "main prog (a # filename # rest) w =
          (Inr 0, w\<lparr>count := 0,
                     cerr := cerr w @ [''Error during processing: Could not open file: '' @ filename]\<rparr>)"
    using run_reader_Runtime_error [of "\<lparr>p_reader = read, p_filter = flt,
                            p_observers = [PrintObserver, CountObserver]\<rparr>" filename "w\<lparr>count := 0\<rparr>",
          OF _] read_unopenable [OF f]
    by (simp add: main_two_args flt)
next
  assume "valid_filter_spec a"
  then show "taken_filter_spec a" by (rule valid_filter_spec_taken)
qed

text \<open>
  One invocation for each case: a single argument, an unknown type, GT without a digit,
  the GT values next to the ends of the range on both sides, GT followed by an integer
  and other characters, and a missing file.
\<close>

theorem main_exit_code_witness:
  "length [''EVEN''] < 2
   \<and> fst (main ''prog'' [''EVEN''] example_world) = Inr 1
   \<and> \<not> taken_filter_spec ''EVENX''
   \<and> main ''prog'' [''EVENX'', ''numbers.txt''] example_world =
       (Inr 1, example_world\<lparr>cerr := [''Error: Unknown filter type: EVENX'']\<rparr>)
   \<and> \<not> taken_filter_spec ''GTx''
   \<and> main ''prog'' [''GTx'', ''numbers.txt''] example_world =
       (Inr 1, example_world\<lparr>cerr := [''Error: Invalid argument for GT filter: x'']\<rparr>)
   \<and> \<not> taken_filter_spec ''GT2147483648''
   \<and> main ''prog'' [''GT2147483648'', ''numbers.txt''] example_world =
       (Inr 1, example_world\<lparr>cerr := [''Error: Argument out of range for GT filter: 2147483648'']\<rparr>)
   \<and> \<not> taken_filter_spec ''GT-2147483649''
   \<and> main ''prog'' [''GT-2147483649'', ''numbers.txt''] example_world =
       (Inr 1, example_world\<lparr>cerr := [''Error: Argument out of range for GT filter: -2147483649'']\<rparr>)
   \<and> taken_filter_spec ''GT2147483647''
   \<and> fst (main ''prog'' [''GT2147483647'', ''numbers.txt''] example_world) = Inr 0
   \<and> taken_filter_spec ''GT-2147483648''
   \<and> fst (main ''prog'' [''GT-2147483648'', ''numbers.txt''] example_world) = Inr 0
   \<and> taken_filter_spec ''GT5abc''
   \<and> fst (main ''prog'' [''GT5abc'', ''numbers.txt''] example_world) = Inr 0
   \<and> valid_filter_spec ''ODD'' \<and> taken_filter_spec ''ODD''
   \<and> files example_world ''missing.txt'' = None
   \<and> main ''prog'' [''ODD'', ''missing.txt''] example_world =
       (Inr 0, example_world\<lparr>cerr := [''Error during processing: Could not open file: missing.txt'']\<rparr>)"
proof -
  have n: "\<not> taken_filter_spec ''EVENX''" "\<not> taken_filter_spec ''GTx''"
    "\<not> taken_filter_spec ''GT2147483648''" "\<not> taken_filter_spec ''GT-2147483649''"
    by code_simp+
  have t: "taken_filter_spec ''GT2147483647''" "taken_filter_spec ''GT-2147483648''"
    "taken_filter_spec ''GT5abc''" "valid_filter_spec ''ODD''"
    by code_simp+
  have s: "\<not> starts_with ''EVENX'' ''GT''" "starts_with ''GTx'' ''GT''"
    "starts_with ''GT2147483648'' ''GT''" "starts_with ''GT-2147483649'' ''GT''"
    by (simp_all add: starts_with_def)
  have l: "\<not> is_numeral (leading_numeral ''x'')" "is_numeral (leading_numeral ''2147483648'')"
    "is_numeral (leading_numeral ''-2147483649'')"
    by code_simp+
  have f: "files example_world ''missing.txt'' = None" "cerr example_world = []"
    "example_world\<lparr>count := 0\<rparr> = example_world"
    by (simp_all add: example_world_def)
  from main_exit_code [of "[''EVEN'']" "''prog''" example_world "''EVENX''" "''numbers.txt''" "[]"]
    main_exit_code [of "[''EVEN'']" "''prog''" example_world "''GTx''" "''numbers.txt''" "[]"]
    main_exit_code [of "[''EVEN'']" "''prog''" example_world "''GT2147483648''" "''numbers.txt''" "[]"]
    main_exit_code [of "[''EVEN'']" "''prog''" example_world "''GT-2147483649''" "''numbers.txt''" "[]"]
    main_exit_code [of "[''EVEN'']" "''prog''" example_world "''GT2147483647''" "''numbers.txt''" "[]"]
    main_exit_code [of "[''EVEN'']" "''prog''" example_world "''GT-2147483648''" "''numbers.txt''" "[]"]
    main_exit_code [of "[''EVEN'']" "''prog''" example_world "''GT5abc''" "''numbers.txt''" "[]"]
    main_exit_code [of "[''EVEN'']" "''prog''" example_world "''ODD''" "''missing.txt''" "[]"]
    n t s l f
  show ?thesis by simp
qed

text \<open>
  C10. When \<^verbatim>\<open>main\<close> is called with a filter argument that starts with GT and a file
  name, the filter is made by the creator registered for GT from the characters after
  GT, and the exit code and the error printed are those of that creator; its errors are
  never the unknown-filter-type error. The argument GT alone gives the creator the empty
  string, which fails with \<^verbatim>\<open>invalid_argument\<close>, and \<^verbatim>\<open>main\<close> returns 1.
\<close>

theorem main_GT_prefix:
  "starts_with a ''GT'' \<Longrightarrow>
     main_filter a = gt_creator (drop 2 a)
     \<and> main prog (a # filename # rest) w =
         (case gt_creator (drop 2 a) of
            Inl e \<Rightarrow> (Inr 1, w\<lparr>cerr := cerr w @ [''Error: '' @ what e]\<rparr>)
          | Inr flt \<Rightarrow>
              (Inr 0, snd (run \<lparr>p_reader = read, p_filter = flt,
                                p_observers = [PrintObserver, CountObserver]\<rparr>
                             filename (w\<lparr>count := 0\<rparr>))))
     \<and> gt_creator (drop 2 a) \<noteq> Inl (Invalid_argument (''Unknown filter type: '' @ t))
     \<and> main_filter ''GT'' = Inl (Invalid_argument ''Invalid argument for GT filter: '')
     \<and> main prog (''GT'' # filename # rest) w =
         (Inr 1, w\<lparr>cerr := cerr w @ [''Error: Invalid argument for GT filter: '']\<rparr>)"
proof -
  assume gt: "starts_with a ''GT''"
  have empty: "main_filter ''GT'' = Inl (Invalid_argument ''Invalid argument for GT filter: '')"
    by (simp add: main_filter_cases starts_with_def gt_creator_def stoi_empty)
  from gt have "main_filter a = gt_creator (drop 2 a)"
    by (simp add: main_filter_cases)
  moreover from this have "main prog (a # filename # rest) w =
         (case gt_creator (drop 2 a) of
            Inl e \<Rightarrow> (Inr 1, w\<lparr>cerr := cerr w @ [''Error: '' @ what e]\<rparr>)
          | Inr flt \<Rightarrow>
              (Inr 0, snd (run \<lparr>p_reader = read, p_filter = flt,
                                p_observers = [PrintObserver, CountObserver]\<rparr>
                             filename (w\<lparr>count := 0\<rparr>))))"
    by (simp add: main_two_args)
  moreover have "gt_creator (drop 2 a) \<noteq> Inl (Invalid_argument (''Unknown filter type: '' @ t))"
    by (rule gt_creator_not_unknown)
  moreover have "main prog (''GT'' # filename # rest) w =
         (Inr 1, w\<lparr>cerr := cerr w @ [''Error: Invalid argument for GT filter: '']\<rparr>)"
    by (simp add: main_two_args empty)
  ultimately show ?thesis using empty by simp
qed

text \<open>The arguments GT and GT0 with the example file.\<close>

theorem main_GT_prefix_witness:
  "starts_with ''GT'' ''GT''
   \<and> main ''prog'' [''GT'', ''numbers.txt''] example_world =
       (Inr 1, example_world\<lparr>cerr := [''Error: Invalid argument for GT filter: '']\<rparr>)
   \<and> starts_with ''GT0'' ''GT''
   \<and> main_filter ''GT0'' = Inr (GreaterThanFilter 0)
   \<and> fst (main ''prog'' [''GT0'', ''numbers.txt''] example_world) = Inr 0"
proof -
  have s: "starts_with ''GT'' ''GT''" "starts_with ''GT0'' ''GT''"
    by (simp_all add: starts_with_def)
  have g: "gt_creator ''0'' = Inr (GreaterThanFilter 0)"
    by (simp add: gt_creator_def stoi_def isspace_def isdigit_def dec_value_def digit_val_def)
  have e: "cerr example_world = []" by (simp add: example_world_def)
  from main_GT_prefix [OF s(1), of "''prog''" "''numbers.txt''" "[]" example_world]
    main_GT_prefix [OF s(2), of "''prog''" "''numbers.txt''" "[]" example_world] s g e
  show ?thesis by simp
qed

section \<open>Properties of the logger\<close>

lemma sink_inv_new_Logger: "heap w = Map.empty \<Longrightarrow> sink_inv (new_Logger w)"
  by (simp add: sink_inv_def new_Logger_def make_unique_def)

lemma sink_inv_set_sink: "sink_inv st \<Longrightarrow> sink_inv (set_sink type st)"
  by (cases st)
     (auto simp: sink_inv_def set_sink_def make_unique_def make_unique_FileSink_def
        assign_sink_def Let_def split: option.splits if_splits)

lemma sink_write_inv:
  "sink_inv (lg, w) \<Longrightarrow> sink lg = Some p \<Longrightarrow>
   \<exists>w'. sink_write p msg w = Some w' \<and> sink_inv (lg, w')"
  by (auto simp: sink_inv_def sink_write_def split: option.splits LogSink.splits)

lemma log_with_sink:
  "sink lg = Some p \<Longrightarrow>
   log msg location (lg, w) = map_option (Pair lg) (sink_write p (formatLogMessage msg location) w)"
  by (simp add: log_def)

lemma log_inv:
  assumes "sink_inv st"
  shows "\<exists>st'. log msg location st = Some st' \<and> sink_inv st'"
proof -
  obtain lg w where st: "st = (lg, w)" by (cases st)
  with assms obtain p where p: "sink lg = Some p"
    by (auto simp: sink_inv_def split: option.splits)
  from sink_write_inv [OF assms [unfolded st] p, of "formatLogMessage msg location"]
  show ?thesis by (auto simp: st log_with_sink [OF p])
qed

lemma call_logger_inv:
  assumes "sink_inv st"
  shows "\<exists>st'. call_logger c st = Some st' \<and> sink_inv st'"
proof (cases c)
  case (Set_sink type)
  with assms show ?thesis by (simp add: sink_inv_set_sink)
next
  case (Log msg location)
  with log_inv [OF assms, of msg location] show ?thesis by simp
next
  case (Environment content openable writable)
  with assms show ?thesis
    by (cases st) (auto simp: sink_inv_def split: option.splits)
qed

lemma call_sequence_inv:
  "sink_inv st \<Longrightarrow> \<exists>st'. call_sequence cs st = Some st' \<and> sink_inv st'"
proof (induction cs arbitrary: st)
  case Nil
  then show ?case by simp
next
  case (Cons c cs)
  from call_logger_inv [OF Cons.prems, of c] obtain st1
    where "call_logger c st = Some st1" "sink_inv st1" by blast
  with Cons.IH [of st1] show ?case by simp
qed

lemma set_sink_recognized:
  assumes "sink_inv (lg, w)" "sink lg = Some p" "type \<in> {CONSOLE, FILE, NONE}"
  shows "\<exists>p' obj. p' \<noteq> p \<and> sink (fst (set_sink type (lg, w))) = Some p'
      \<and> heap (snd (set_sink type (lg, w))) = [p' \<mapsto> obj] \<and> sink_kind obj = type
      \<and> current_sink_type (fst (set_sink type (lg, w))) = type"
proof -
  from assms(1,2) have d: "dom (heap w) = {p}" and lt: "p < next_addr w"
    by (simp_all add: sink_inv_def)
  have h: "(heap w)(p := None) = Map.empty"
    using d by (auto simp: fun_eq_iff dom_def)
  have h': "((heap w)(next_addr w \<mapsto> obj))(p := None) = [next_addr w \<mapsto> obj]" for obj
    using h lt by (auto simp: fun_upd_twist)
  let ?obj = "the (heap (snd (set_sink type (lg, w))) (next_addr w))"
  from assms(3) consider "type = CONSOLE" | "type = FILE" | "type = NONE" by auto
  then have "next_addr w \<noteq> p \<and> sink (fst (set_sink type (lg, w))) = Some (next_addr w)
      \<and> heap (snd (set_sink type (lg, w))) = [next_addr w \<mapsto> ?obj] \<and> sink_kind ?obj = type
      \<and> current_sink_type (fst (set_sink type (lg, w))) = type"
  proof cases
    case 1
    with lt assms(2) h' show ?thesis
      by (simp add: set_sink_def make_unique_def assign_sink_def)
  next
    case 2
    with lt assms(2) h' show ?thesis
      by (simp add: set_sink_def make_unique_def make_unique_FileSink_def assign_sink_def
            CONSOLE_def FILE_def)
  next
    case 3
    with lt assms(2) h' show ?thesis
      by (simp add: set_sink_def make_unique_def assign_sink_def CONSOLE_def FILE_def NONE_def)
  qed
  then show ?thesis by blast
qed

lemma sink_inv_facts:
  assumes "sink_inv (lg, w)"
  shows "\<exists>p obj. sink lg = Some p \<and> heap w = [p \<mapsto> obj]
         \<and> sink_kind obj = current_sink_type lg
         \<and> (\<forall>msg location. \<exists>w'.
               sink_write p (formatLogMessage msg location) w = Some w'
               \<and> log msg location (lg, w) = Some (lg, w'))
         \<and> (\<forall>type. type \<in> {CONSOLE, FILE, NONE} \<longrightarrow>
               (\<exists>p' obj'. p' \<noteq> p
                  \<and> sink (fst (set_sink type (lg, w))) = Some p'
                  \<and> heap (snd (set_sink type (lg, w))) = [p' \<mapsto> obj']
                  \<and> sink_kind obj' = type
                  \<and> current_sink_type (fst (set_sink type (lg, w))) = type))"
proof -
  from assms obtain p where p: "sink lg = Some p" and d: "dom (heap w) = {p}"
    and k: "map_option sink_kind (heap w p) = Some (current_sink_type lg)"
    by (auto simp: sink_inv_def split: option.splits)
  from k obtain obj where obj: "heap w p = Some obj" and kind: "sink_kind obj = current_sink_type lg"
    by auto
  have h: "heap w = [p \<mapsto> obj]"
    using d obj by (auto simp: fun_eq_iff dom_def)
  have l: "\<exists>w'. sink_write p (formatLogMessage msg location) w = Some w'
               \<and> log msg location (lg, w) = Some (lg, w')" for msg location
    using sink_write_inv [OF assms p, of "formatLogMessage msg location"]
    by (auto simp: log_with_sink [OF p])
  have s: "type \<in> {CONSOLE, FILE, NONE} \<longrightarrow>
               (\<exists>p' obj'. p' \<noteq> p
                  \<and> sink (fst (set_sink type (lg, w))) = Some p'
                  \<and> heap (snd (set_sink type (lg, w))) = [p' \<mapsto> obj']
                  \<and> sink_kind obj' = type
                  \<and> current_sink_type (fst (set_sink type (lg, w))) = type)" for type
    using set_sink_recognized [OF assms p] by blast
  from p h kind l s show ?thesis by blast
qed

text \<open>
  C8. The constructor, in a world with no sink object yet, leaves the logger with one
  console sink. After every sequence of \<^verbatim>\<open>set_sink\<close> and \<^verbatim>\<open>log\<close> calls that
  follows, whatever the environment does to \<^verbatim>\<open>app.log\<close>, no call has had undefined
  behaviour, \<^verbatim>\<open>sink_\<close> is not null and the object it owns is the only sink object
  alive, of the class \<^verbatim>\<open>current_sink_type_\<close> names; so \<^verbatim>\<open>log\<close> takes the branch that
  writes to the sink, on a live object, and never the branch for a null sink. A
  \<^verbatim>\<open>set_sink\<close> call with one of the three enumerators leaves the logger owning exactly
  one object again, a new one of the requested class at another address: the object
  owned before has been destroyed when \<^verbatim>\<open>set_sink\<close> returns, before any \<^verbatim>\<open>log\<close> call
  can write to the new one.
\<close>

theorem logger_always_has_one_sink:
  assumes "heap w0 = Map.empty"
  shows "sink (fst (new_Logger w0)) = Some (next_addr w0)
     \<and> heap (snd (new_Logger w0)) = [next_addr w0 \<mapsto> ConsoleSink]
     \<and> current_sink_type (fst (new_Logger w0)) = CONSOLE
     \<and> (\<exists>lg w p obj.
          call_sequence cs (new_Logger w0) = Some (lg, w)
          \<and> sink lg = Some p \<and> heap w = [p \<mapsto> obj]
          \<and> sink_kind obj = current_sink_type lg
          \<and> (\<forall>msg location. \<exists>w'.
                sink_write p (formatLogMessage msg location) w = Some w'
                \<and> log msg location (lg, w) = Some (lg, w'))
          \<and> (\<forall>type. type \<in> {CONSOLE, FILE, NONE} \<longrightarrow>
                (\<exists>p' obj'. p' \<noteq> p
                   \<and> sink (fst (set_sink type (lg, w))) = Some p'
                   \<and> heap (snd (set_sink type (lg, w))) = [p' \<mapsto> obj']
                   \<and> sink_kind obj' = type
                   \<and> current_sink_type (fst (set_sink type (lg, w))) = type)))"
proof -
  have init: "sink (fst (new_Logger w0)) = Some (next_addr w0)
     \<and> heap (snd (new_Logger w0)) = [next_addr w0 \<mapsto> ConsoleSink]
     \<and> current_sink_type (fst (new_Logger w0)) = CONSOLE"
    using assms by (simp add: new_Logger_def make_unique_def)
  from call_sequence_inv [OF sink_inv_new_Logger [OF assms], of cs]
  obtain lg w where r: "call_sequence cs (new_Logger w0) = Some (lg, w)" and inv: "sink_inv (lg, w)"
    by auto
  from sink_inv_facts [OF inv] r init show ?thesis by blast
qed

lemma main_calls_result:
  "map_option observe (call_sequence main_calls (new_Logger example_logger_world)) =
     Some (Some 4, CONSOLE,
           [''Logging redirected to console.'',
            ''[main.cpp:main:136] First test message.'',
            ''[main.cpp:main:137] Second test message.'',
            ''Logging redirected to file app.log.'',
            ''Logging disabled.'',
            ''Logging redirected to console.'',
            ''[main.cpp:main:143] Back to console output.''],
           [],
           [''[main.cpp:main:139] Message to file.''])"
  by code_simp

text \<open>
  The calls of \<^verbatim>\<open>main\<close> in the example world: the logger ends with the fifth sink
  object made, a console sink, and the one message logged to the file sink is in
  \<^verbatim>\<open>app.log\<close>.
\<close>

theorem logger_always_has_one_sink_witness:
  "heap example_logger_world = Map.empty
   \<and> sink (fst (new_Logger example_logger_world)) = Some 0
   \<and> heap (snd (new_Logger example_logger_world)) = [0 \<mapsto> ConsoleSink]
   \<and> (\<exists>st. call_sequence main_calls (new_Logger example_logger_world) = Some st
         \<and> heap (snd st) = [4 \<mapsto> ConsoleSink]
         \<and> observe st =
             (Some 4, CONSOLE,
              [''Logging redirected to console.'',
               ''[main.cpp:main:136] First test message.'',
               ''[main.cpp:main:137] Second test message.'',
               ''Logging redirected to file app.log.'',
               ''Logging disabled.'',
               ''Logging redirected to console.'',
               ''[main.cpp:main:143] Back to console output.''],
              [],
              [''[main.cpp:main:139] Message to file.'']))"
proof -
  have h: "heap example_logger_world = Map.empty" and n: "next_addr example_logger_world = 0"
    by (simp_all add: example_logger_world_def)
  from logger_always_has_one_sink [OF h, of main_calls]
  obtain lg w p obj where st: "call_sequence main_calls (new_Logger example_logger_world) = Some (lg, w)"
    and p: "sink lg = Some p" and hp: "heap w = [p \<mapsto> obj]"
    and k: "sink_kind obj = current_sink_type lg"
    and init: "sink (fst (new_Logger example_logger_world)) = Some (next_addr example_logger_world)"
      "heap (snd (new_Logger example_logger_world)) = [next_addr example_logger_world \<mapsto> ConsoleSink]"
    by blast
  from main_calls_result st have o: "observe (lg, w) =
             (Some 4, CONSOLE,
              [''Logging redirected to console.'',
               ''[main.cpp:main:136] First test message.'',
               ''[main.cpp:main:137] Second test message.'',
               ''Logging redirected to file app.log.'',
               ''Logging disabled.'',
               ''Logging redirected to console.'',
               ''[main.cpp:main:143] Back to console output.''],
              [],
              [''[main.cpp:main:139] Message to file.''])"
    by simp
  then have "sink lg = Some 4" "current_sink_type lg = CONSOLE" by (simp_all add: observe_def)
  with p k have "p = 4" "obj = ConsoleSink"
    by (cases obj; simp add: CONSOLE_def FILE_def NONE_def)+
  with hp have "heap w = [4 \<mapsto> ConsoleSink]" by simp
  with st o h init n show ?thesis by simp
qed

lemma example_new_Logger:
  "new_Logger example_logger_world =
     (\<lparr>sink = Some 0, current_sink_type = CONSOLE\<rparr>,
      example_logger_world\<lparr>heap := [0 \<mapsto> ConsoleSink], next_addr := 1\<rparr>)"
  by (simp add: new_Logger_def make_unique_def example_logger_world_def)

lemma example_set_sink_FILE:
  "set_sink FILE (new_Logger example_logger_world) =
     (\<lparr>sink = Some 1, current_sink_type = FILE\<rparr>,
      example_logger_world\<lparr>cout := [''Logging redirected to file app.log.''],
                           heap := [1 \<mapsto> FileSink True False], next_addr := 2\<rparr>)"
  by (simp add: example_new_Logger set_sink_def make_unique_FileSink_def make_unique_def
        assign_sink_def CONSOLE_def FILE_def)
     (simp add: example_logger_world_def fun_eq_iff)

text \<open>
  C9. \<^verbatim>\<open>set_sink\<close> with a value that is none of the three enumerators writes the
  warning to the error stream and changes nothing else: the logger keeps its sink pointer
  and its recorded sink type, the sink objects, the output stream and \<^verbatim>\<open>app.log\<close> are
  as before, and a \<^verbatim>\<open>log\<close> call that follows writes to the sink installed before.
\<close>

theorem set_sink_unknown_keeps_state:
  "type \<notin> {CONSOLE, FILE, NONE} \<Longrightarrow>
     set_sink type (lg, w) =
       (lg, w\<lparr>cerr := cerr w @ [''Unknown sink type. Previous sink remains.'']\<rparr>)
     \<and> sink (fst (set_sink type (lg, w))) = sink lg
     \<and> get_current_sink_type (fst (set_sink type (lg, w))) = get_current_sink_type lg
     \<and> heap (snd (set_sink type (lg, w))) = heap w
     \<and> cout (snd (set_sink type (lg, w))) = cout w
     \<and> app_log (snd (set_sink type (lg, w))) = app_log w
     \<and> (sink lg = Some p \<longrightarrow>
          log msg location (set_sink type (lg, w)) =
            map_option (Pair lg)
              (sink_write p (formatLogMessage msg location)
                 (w\<lparr>cerr := cerr w @ [''Unknown sink type. Previous sink remains.'']\<rparr>)))"
  by (simp add: set_sink_def log_def get_current_sink_type_def)

text \<open>
  The value 7 after \<^verbatim>\<open>set_sink(SinkType::FILE)\<close>: the file sink stays, and the next
  message goes to \<^verbatim>\<open>app.log\<close>.
\<close>

theorem set_sink_unknown_keeps_state_witness:
  "(7 :: SinkType) \<notin> {CONSOLE, FILE, NONE}
   \<and> set_sink 7 (set_sink FILE (new_Logger example_logger_world)) =
       (\<lparr>sink = Some 1, current_sink_type = FILE\<rparr>,
        example_logger_world\<lparr>cout := [''Logging redirected to file app.log.''],
                             cerr := [''Unknown sink type. Previous sink remains.''],
                             heap := [1 \<mapsto> FileSink True False], next_addr := 2\<rparr>)
   \<and> log ''after'' \<lparr>file_name = ''main.cpp'', function_name = ''main'', line = 139\<rparr>
         (set_sink 7 (set_sink FILE (new_Logger example_logger_world))) =
       Some (\<lparr>sink = Some 1, current_sink_type = FILE\<rparr>,
             example_logger_world\<lparr>cout := [''Logging redirected to file app.log.''],
                             cerr := [''Unknown sink type. Previous sink remains.''],
                             heap := [1 \<mapsto> FileSink True False], next_addr := 2,
                             app_log := [''[main.cpp:main:139] after'']\<rparr>)"
proof -
  let ?lg = "\<lparr>sink = Some 1, current_sink_type = FILE\<rparr>"
  let ?w = "example_logger_world\<lparr>cout := [''Logging redirected to file app.log.''],
                           heap := [1 \<mapsto> FileSink True False], next_addr := 2\<rparr>"
  let ?w' = "example_logger_world\<lparr>cout := [''Logging redirected to file app.log.''],
                             cerr := [''Unknown sink type. Previous sink remains.''],
                             heap := [1 \<mapsto> FileSink True False], next_addr := 2\<rparr>"
  have n: "(7 :: SinkType) \<notin> {CONSOLE, FILE, NONE}"
    by (simp add: CONSOLE_def FILE_def NONE_def)
  have f: "formatLogMessage ''after'' \<lparr>file_name = ''main.cpp'', function_name = ''main'', line = 139\<rparr>
      = ''[main.cpp:main:139] after''"
    by code_simp
  have w: "?w\<lparr>cerr := cerr ?w @ [''Unknown sink type. Previous sink remains.'']\<rparr> = ?w'"
    by (simp add: example_logger_world_def)
  have s: "set_sink 7 (?lg, ?w) = (?lg, ?w')"
    using set_sink_unknown_keeps_state [OF n, of ?lg ?w] by (simp only: w)
  have l: "log ''after'' \<lparr>file_name = ''main.cpp'', function_name = ''main'', line = 139\<rparr> (?lg, ?w')
     = Some (?lg, ?w'\<lparr>app_log := [''[main.cpp:main:139] after'']\<rparr>)"
    by (simp add: log_def f sink_write_def example_logger_world_def)
  from n s l show ?thesis
    by (simp only: example_set_sink_FILE) simp
qed

end
